theory Spec2Isabelle
  imports Main "HOL-Library.Sublist" "HOL-Library.Log_Nat"
begin

section \<open>Socialsense: campaign matching, metrics and alerting\<close>

text \<open>
  A shallow embedding of \<^verbatim>\<open>src/models.py\<close>, \<^verbatim>\<open>src/campaign_logic.py\<close> and
  \<^verbatim>\<open>src/alerting_system.py\<close>. Objects are records, mutation is explicit state
  passing, and the system clock is an argument \<open>now\<close>: one reading stands for all
  the readings a call makes.
\<close>

subsection \<open>Exceptions\<close>

text \<open>
  A call that raises has the value \<open>Inl e\<close>, a call that returns \<open>v\<close> has the value
  \<open>Inr v\<close>.
\<close>

datatype py_error = TypeError | ValueError | OverflowError | OSError | ZeroDivisionError

subsection \<open>Python floats\<close>

text \<open>
  A finite Python float is a binary64 number, hence a rational. The arithmetic the
  code performs on floats is the exact operation followed by rounding to the nearest
  binary64 number, ties to even (\<open>fl\<close>). The division of two ints raises where the
  quotient leaves the binary64 range (\<open>truediv_raises\<close>). Subnormal numbers, NaN
  and the infinity a float product gives beyond that range are outside the model.
\<close>

definition pow2 :: "int \<Rightarrow> rat" where
  "pow2 e = (if 0 \<le> e then 2 ^ nat e else 1 / 2 ^ nat (- e))"

definition round_half_even :: "rat \<Rightarrow> int" where
  "round_half_even x =
     (let f = \<lfloor>x\<rfloor>; r = x - of_int f
      in if r < 1 / 2 then f
         else if 1 / 2 < r then f + 1
         else if even f then f else f + 1)"

definition ilog2 :: "rat \<Rightarrow> int" where
  \<comment> \<open>\<open>\<lfloor>log\<^sub>2 x\<rfloor>\<close> for \<open>x > 0\<close>\<close>
  "ilog2 x =
     (let k = bitlen (fst (quotient_of x)) - bitlen (snd (quotient_of x))
      in if pow2 k \<le> x then k else k - 1)"

definition fl :: "rat \<Rightarrow> rat" where
  \<comment> \<open>the nearest number with a 53-bit significand, ties to even\<close>
  "fl x =
     (if x = 0 then 0
      else let e = ilog2 \<bar>x\<bar> - 52
           in sgn x * of_int (round_half_even (\<bar>x\<bar> / pow2 e)) * pow2 e)"

definition truediv_raises :: "int \<Rightarrow> int \<Rightarrow> py_error option" where
  \<comment> \<open>\<^verbatim>\<open>a / b\<close> on two Python ints raises on a zero divisor, and when the quotient
      rounds to \<open>2 ^ 1024\<close> (\<^verbatim>\<open>integer division result too large for a float\<close>)\<close>
  "truediv_raises a b =
     (if b = 0 then Some ZeroDivisionError
      else if 2 ^ 1024 - 2 ^ 970 \<le> \<bar>of_int a / of_int b :: rat\<bar> then Some OverflowError
      else None)"

definition truediv :: "int \<Rightarrow> int \<Rightarrow> rat" where
  \<comment> \<open>the value of \<^verbatim>\<open>a / b\<close> where it does not raise: the correctly rounded quotient\<close>
  "truediv a b = fl (of_int a / of_int b)"

definition fmul :: "rat \<Rightarrow> rat \<Rightarrow> rat" where
  "fmul x y = fl (x * y)"

definition fdiv :: "rat \<Rightarrow> rat \<Rightarrow> rat" where
  "fdiv x y = fl (x / y)"

definition fsub :: "rat \<Rightarrow> rat \<Rightarrow> rat" where
  "fsub x y = fl (x - y)"

definition round2 :: "rat \<Rightarrow> rat" where
  \<comment> \<open>\<^verbatim>\<open>round(x, 2)\<close>: the exact value of \<open>x\<close> rounded half-even to two decimals,
      then the nearest float of that decimal\<close>
  "round2 x = fl (of_int (round_half_even (x * 100)) / 100)"

subsection \<open>The data model (\<^verbatim>\<open>models.py\<close>)\<close>

text \<open>
  A naive \<^verbatim>\<open>datetime\<close> is its wall-clock reading in microseconds. The campaign
  dates are naive by the code's own assumption, and the code drops the \<^verbatim>\<open>tzinfo\<close>
  of every other datetime before it compares (\<^verbatim>\<open>replace(tzinfo=None)\<close> keeps the
  wall-clock fields).
\<close>

type_synonym datetime = int

text \<open>
  \<^verbatim>\<open>SocialMediaPost.timestamp\<close> arrives as a number, a string, a datetime or anything
  else. A number carries what \<^verbatim>\<open>datetime.fromtimestamp(ts, tz=utc)\<close> does with it: the
  wall clock it returns, or the exception it raises (\<^verbatim>\<open>ValueError\<close> for NaN and for a
  year outside 1..9999, such as a Unix time in milliseconds; \<^verbatim>\<open>OverflowError\<close> or
  \<^verbatim>\<open>OSError\<close> for larger numbers). A string carries what \<^verbatim>\<open>datetime.fromisoformat\<close>
  gives for it, \<open>None\<close> when that raises \<^verbatim>\<open>ValueError\<close>.
\<close>

datatype timestamp =
    TsNumber "py_error + datetime"
  | TsString "datetime option"
  | TsDatetime datetime
  | TsOther

record post =
  post_id :: string
  account_id :: string
  platform :: string
  content :: "string option"
  timestamp :: timestamp
  likes :: "int option"
  shares :: "int option"
  comments_count :: "int option"
  reach :: "int option"
  sentiment_label :: "string option"
  sentiment :: "string option option"

text \<open>
  \<open>sentiment_label\<close> and \<open>sentiment\<close> are the two attributes the analysis stage may
  attach to a post: \<open>sentiment_label p = None\<close> when the attribute is absent,
  \<open>sentiment p = None\<close> when the attribute is absent or not a dict, and
  \<open>sentiment p = Some l\<close> for a dict whose \<^verbatim>\<open>.get('label')\<close> is \<open>l\<close>.
\<close>

datatype status = Planning | Active | Paused | Finished | Archived

record campaign =
  campaign_id :: string
  user_id :: string
  name :: string
  start_date :: "datetime option"
  end_date :: "datetime option"
  tracked_keywords :: "string list"
  tracked_hashtags :: "string list"
  tracked_accounts :: "string list"
  status :: status
  total_posts :: int
  total_likes :: int
  total_shares :: int
  total_comments :: int
  total_reach :: int
  avg_engagement_rate :: rat
  associated_post_ids :: "string list"

text \<open>The message of an alert is an f-string; the model keeps the values it formats.\<close>

datatype alert_message =
    PlainMessage string
  | NewTrendMessage string int
  | TrendGrowingMessage string int int
  | EngagementSpikedMessage string rat rat
  | EngagementDroppedMessage string rat rat
  | NegativeSentimentMessage rat string nat nat

text \<open>
  \<^verbatim>\<open>alert_id\<close> is a fresh random \<^verbatim>\<open>uuid4\<close> prefix and is not part of the record.
\<close>

record alert =
  alert_user_id :: string
  message :: alert_message
  alert_type :: string
  severity :: string
  related_entity_id :: "string option"
  related_entity_type :: "string option"
  alert_timestamp :: datetime
  is_read :: bool
  read_at :: "datetime option"

definition Alert ::
  "datetime \<Rightarrow> string \<Rightarrow> alert_message \<Rightarrow> string \<Rightarrow> string \<Rightarrow> string option \<Rightarrow> string option \<Rightarrow> alert"
where
  "Alert now uid msg ty sev rid rty =
     \<lparr>alert_user_id = uid, message = msg, alert_type = ty, severity = sev,
      related_entity_id = rid, related_entity_type = rty, alert_timestamp = now,
      is_read = False, read_at = None\<rparr>"


subsection \<open>Campaign status and metrics\<close>

definition update_status_logic :: "datetime \<Rightarrow> campaign \<Rightarrow> campaign" where
  "update_status_logic current_time c =
     (if end_date c \<noteq> None \<and> the (end_date c) < current_time then c\<lparr>status := Finished\<rparr>
      else if start_date c \<noteq> None \<and> the (start_date c) \<le> current_time then c\<lparr>status := Active\<rparr>
      else if start_date c \<noteq> None \<and> the (start_date c) > current_time then c\<lparr>status := Planning\<rparr>
      else c)"

definition update_status :: "datetime \<Rightarrow> campaign \<Rightarrow> campaign" where
  "update_status now c = update_status_logic now c"

definition sum_present :: "(post \<Rightarrow> int option) \<Rightarrow> post list \<Rightarrow> int" where
  \<comment> \<open>\<^verbatim>\<open>sum(p.f for p in posts if p.f is not None)\<close>\<close>
  "sum_present f posts = sum_list (map (\<lambda>p. the (f p)) (filter (\<lambda>p. f p \<noteq> None) posts))"

definition engagement_rate :: "int \<Rightarrow> int \<Rightarrow> int \<Rightarrow> rat" where
  "engagement_rate total_engagements reach_total posts_total =
     (if reach_total > 0 then round2 (fmul (truediv total_engagements reach_total) 100)
      else if posts_total > 0 then round2 (truediv total_engagements posts_total)
      else 0)"

definition update_metrics :: "datetime \<Rightarrow> post list \<Rightarrow> campaign \<Rightarrow> campaign" where
  "update_metrics now posts c =
     (if posts = [] then
        c\<lparr>total_posts := 0, total_likes := 0, total_shares := 0, total_comments := 0,
          total_reach := 0, avg_engagement_rate := 0, associated_post_ids := []\<rparr>
      else
        let n = int (length posts);
            l = sum_present likes posts;
            s = sum_present shares posts;
            k = sum_present comments_count posts;
            r = sum_present reach posts
        in update_status now
             (c\<lparr>total_posts := n, total_likes := l, total_shares := s, total_comments := k,
               total_reach := r, associated_post_ids := map post_id posts,
               avg_engagement_rate := engagement_rate (l + s + k) r n\<rparr>))"

text \<open>
  \<open>update_metrics now posts c\<close> is the campaign after a call that returns. The call
  raises where one of the two divisions does.
\<close>

definition engagement_rate_raises :: "int \<Rightarrow> int \<Rightarrow> int \<Rightarrow> py_error option" where
  "engagement_rate_raises total_engagements reach_total posts_total =
     (if reach_total > 0 then truediv_raises total_engagements reach_total
      else if posts_total > 0 then truediv_raises total_engagements posts_total
      else None)"

definition update_metrics_call :: "datetime \<Rightarrow> post list \<Rightarrow> campaign \<Rightarrow> py_error + campaign" where
  "update_metrics_call now posts c =
     (if posts = [] then Inr (update_metrics now posts c)
      else
        case engagement_rate_raises
               (sum_present likes posts + sum_present shares posts
                  + sum_present comments_count posts)
               (sum_present reach posts) (int (length posts)) of
          Some e \<Rightarrow> Inl e
        | None \<Rightarrow> Inr (update_metrics now posts c))"

subsection \<open>Relevance matching (\<^verbatim>\<open>campaign_logic.py\<close>)\<close>

text \<open>
  A \<open>char\<close> is a code point below 256. On these \<^verbatim>\<open>str.lower\<close> moves the capital
  letters \<^verbatim>\<open>A-Z\<close> (65..90) and the accented capitals 192..214 and 216..222 up by 32
  and keeps every other code point; text with code points from 256 on has no value in
  the model. \<^verbatim>\<open>a in b\<close> on two strings is \<^const>\<open>sublist\<close>.
\<close>

definition lower_char :: "char \<Rightarrow> char" where
  "lower_char ch =
     (let n = (of_char ch :: nat)
      in if (65 \<le> n \<and> n \<le> 90) \<or> (192 \<le> n \<and> n \<le> 214) \<or> (216 \<le> n \<and> n \<le> 222)
         then char_of (n + 32) else ch)"

definition lower :: "string \<Rightarrow> string" where
  "lower s = map lower_char s"

text \<open>The values a caller can hand to the entry points of the module.\<close>

datatype pyval =
    PCampaign campaign
  | PPost post
  | PList "pyval list"
  | PNone

fun fromisoformat :: "datetime option \<Rightarrow> py_error + datetime" where
  "fromisoformat None = Inl ValueError"
| "fromisoformat (Some t) = Inr t"

fun fromtimestamp :: "py_error + datetime \<Rightarrow> py_error + datetime" where
  "fromtimestamp (Inl e) = Inl e"
| "fromtimestamp (Inr t) = Inr t"

fun normalize_timestamp :: "timestamp \<Rightarrow> py_error + datetime option" where
  \<comment> \<open>\<open>Inl e\<close>: the conversion raises, outside any \<^verbatim>\<open>try\<close>; \<open>Inr None\<close>: the post
      is skipped (\<^verbatim>\<open>continue\<close>)\<close>
  "normalize_timestamp (TsNumber x) =
     (case fromtimestamp x of Inl e \<Rightarrow> Inl e | Inr t \<Rightarrow> Inr (Some t))"
| "normalize_timestamp (TsString s) =
     (case fromisoformat s of Inl e \<Rightarrow> Inr None | Inr t \<Rightarrow> Inr (Some t))"
| "normalize_timestamp (TsDatetime t) = Inr (Some t)"
| "normalize_timestamp TsOther = Inr None"

definition date_eligible :: "campaign \<Rightarrow> post \<Rightarrow> bool" where
  \<comment> \<open>the post reaches the content/account filter\<close>
  "date_eligible c p =
     (case normalize_timestamp (timestamp p) of
        Inl e \<Rightarrow> False
      | Inr None \<Rightarrow> False
      | Inr (Some post_timestamp) \<Rightarrow>
          if start_date c \<noteq> None \<and> post_timestamp < the (start_date c) then False
          else if end_date c \<noteq> None \<and> post_timestamp > the (end_date c) then False
          else True)"

definition post_content_lower :: "post \<Rightarrow> string" where
  "post_content_lower p =
     (case content p of None \<Rightarrow> [] | Some s \<Rightarrow> if s \<noteq> [] then lower s else [])"

definition matches_criteria :: "campaign \<Rightarrow> post \<Rightarrow> bool" where
  "matches_criteria c p =
     (if tracked_accounts c \<noteq> [] \<and> account_id p \<in> set (tracked_accounts c) then True
      else if tracked_keywords c \<noteq> [] \<and>
              list_ex (\<lambda>keyword. sublist (lower keyword) (post_content_lower p)) (tracked_keywords c)
           then True
      else tracked_hashtags c \<noteq> [] \<and>
           list_ex (\<lambda>hashtag. sublist (CHR ''#'' # lower hashtag) (post_content_lower p))
             (tracked_hashtags c))"

fun relevant_posts :: "campaign \<Rightarrow> post list \<Rightarrow> py_error + post list" where
  "relevant_posts c [] = Inr []"
| "relevant_posts c (p # ps) =
     (case normalize_timestamp (timestamp p) of
        Inl e \<Rightarrow> Inl e
      | Inr t \<Rightarrow>
          (case relevant_posts c ps of
             Inl e \<Rightarrow> Inl e
           | Inr rest \<Rightarrow>
               if \<not> date_eligible c p then Inr rest
               else if matches_criteria c p then Inr (p # rest)
               else Inr rest))"

fun is_campaign :: "pyval \<Rightarrow> bool" where
  "is_campaign (PCampaign c) = True"
| "is_campaign v = False"

fun is_list :: "pyval \<Rightarrow> bool" where
  "is_list (PList vs) = True"
| "is_list v = False"

fun social_media_posts :: "pyval list \<Rightarrow> post list" where
  \<comment> \<open>\<^verbatim>\<open>[p for p in all_posts if isinstance(p, SocialMediaPost)]\<close>\<close>
  "social_media_posts [] = []"
| "social_media_posts (PPost p # vs) = p # social_media_posts vs"
| "social_media_posts (v # vs) = social_media_posts vs"

fun get_posts_for_campaign :: "pyval \<Rightarrow> pyval \<Rightarrow> py_error + post list" where
  "get_posts_for_campaign (PCampaign c) (PList all_posts) =
     relevant_posts c (social_media_posts all_posts)"
| "get_posts_for_campaign (PCampaign c) v = Inr []"
| "get_posts_for_campaign u v = Inr []"

fun campaigns_of :: "pyval list \<Rightarrow> campaign list" where
  "campaigns_of [] = []"
| "campaigns_of (PCampaign c # vs) = c # campaigns_of vs"
| "campaigns_of (v # vs) = campaigns_of vs"

text \<open>
  The loop of \<^verbatim>\<open>process_campaigns\<close>: the first call that raises ends it. Each
  \<^verbatim>\<open>update_metrics\<close> reads the clock; the model takes one reading \<open>now\<close> for the
  whole call.
\<close>

fun process_loop :: "datetime \<Rightarrow> campaign list \<Rightarrow> pyval \<Rightarrow> py_error + campaign list" where
  "process_loop now [] all_social_posts = Inr []"
| "process_loop now (c # cs) all_social_posts =
     (case get_posts_for_campaign (PCampaign c) all_social_posts of
        Inl e \<Rightarrow> Inl e
      | Inr relevant_posts_for_campaign \<Rightarrow>
          (case update_metrics_call now relevant_posts_for_campaign c of
             Inl e \<Rightarrow> Inl e
           | Inr c' \<Rightarrow>
               (case process_loop now cs all_social_posts of
                  Inl e \<Rightarrow> Inl e
                | Inr cs' \<Rightarrow> Inr (c' # cs'))))"

definition process_campaigns :: "datetime \<Rightarrow> pyval \<Rightarrow> pyval \<Rightarrow> py_error + campaign list" where
  "process_campaigns now campaign_list all_social_posts =
     (case campaign_list of
        PList vs \<Rightarrow>
          if list_all is_campaign vs then process_loop now (campaigns_of vs) all_social_posts
          else Inr []
      | _ \<Rightarrow> Inr [])"

subsection \<open>Alerting (\<^verbatim>\<open>alerting_system.py\<close>)\<close>

definition TREND_VOLUME_THRESHOLD :: int where "TREND_VOLUME_THRESHOLD = 100"
definition TREND_VELOCITY_THRESHOLD :: int where "TREND_VELOCITY_THRESHOLD = 50"
definition CAMPAIGN_ENGAGEMENT_DROP_PERCENTAGE :: rat where
  "CAMPAIGN_ENGAGEMENT_DROP_PERCENTAGE = - 20"
definition CAMPAIGN_ENGAGEMENT_SPIKE_PERCENTAGE :: rat where
  "CAMPAIGN_ENGAGEMENT_SPIKE_PERCENTAGE = 30"
definition NEGATIVE_SENTIMENT_THRESHOLD :: rat where
  "NEGATIVE_SENTIMENT_THRESHOLD = fl (6 / 10)"
definition NEGATIVE_SENTIMENT_POST_COUNT :: nat where
  "NEGATIVE_SENTIMENT_POST_COUNT = 10"

record trend_data =
  td_term :: "string option"
  td_count :: "int option"

text \<open>
  An entry of \<^verbatim>\<open>current_trends\<close> is a dict; \<open>td_term\<close> and \<open>td_count\<close> are its keys
  \<^verbatim>\<open>"term"\<close> and \<^verbatim>\<open>"count"\<close>, \<open>None\<close> for a missing key.
\<close>

record trend_observation =
  volume :: int
  seen_at :: datetime

record campaign_observation =
  prev_avg_engagement_rate :: rat
  prev_total_likes :: int
  observed_at :: datetime

text \<open>
  The service. \<open>ai_analyzer\<close> is \<open>None\<close> when \<^verbatim>\<open>AIAnalyzerService\<close> could not be
  imported; otherwise it is the classifier
  \<^verbatim>\<open>ai_analyzer.sentiment_analyzer.analyze_sentiment(text).get('label')\<close>.
\<close>

record alerting_service =
  service_user_id :: string
  previous_campaign_metrics :: "string \<rightharpoonup> campaign_observation"
  seen_trends :: "string \<rightharpoonup> trend_observation"
  ai_analyzer :: "(string \<Rightarrow> string option) option"

definition AlertingService :: "string \<Rightarrow> (string \<Rightarrow> string option) option \<Rightarrow> alerting_service" where
  "AlertingService uid analyzer =
     \<lparr>service_user_id = uid, previous_campaign_metrics = Map.empty, seen_trends = Map.empty,
      ai_analyzer = analyzer\<rparr>"

definition falsy :: "string option \<Rightarrow> bool" where
  \<comment> \<open>\<^verbatim>\<open>not x\<close> for a value that is \<^verbatim>\<open>None\<close> or a string\<close>
  "falsy x = (x = None \<or> x = Some [])"

definition get_count :: "trend_data \<Rightarrow> int" where
  \<comment> \<open>\<^verbatim>\<open>trend_data.get("count", 0)\<close>\<close>
  "get_count trend = (case td_count trend of None \<Rightarrow> 0 | Some n \<Rightarrow> n)"

definition trend_step ::
  "datetime \<Rightarrow> alerting_service \<Rightarrow> trend_data \<Rightarrow> alert list \<times> alerting_service"
where
  "trend_step now svc trend =
     (let count = get_count trend
      in if falsy (td_term trend) then ([], svc)
         else
           let t = the (td_term trend)
           in case seen_trends svc t of
                None \<Rightarrow>
                  ((if count \<ge> TREND_VOLUME_THRESHOLD
                    then [Alert now (service_user_id svc) (NewTrendMessage t count)
                            ''new_trend'' ''info'' (Some t) (Some ''trend_term'')]
                    else []),
                   svc\<lparr>seen_trends := (seen_trends svc)(t \<mapsto> \<lparr>volume = count, seen_at = now\<rparr>)\<rparr>)
              | Some obs \<Rightarrow>
                  (let prev_volume = volume obs; volume_increase = count - prev_volume
                   in ((if volume_increase \<ge> TREND_VELOCITY_THRESHOLD \<and>
                           count \<ge> TREND_VOLUME_THRESHOLD
                        then [Alert now (service_user_id svc)
                                (TrendGrowingMessage t count volume_increase)
                                ''trend_velocity_spike'' ''warning'' (Some t) (Some ''trend_term'')]
                        else []),
                       svc\<lparr>seen_trends :=
                             (seen_trends svc)(t \<mapsto> obs\<lparr>volume := count, seen_at := now\<rparr>)\<rparr>)))"

fun check_trend_alerts ::
  "datetime \<Rightarrow> alerting_service \<Rightarrow> trend_data list \<Rightarrow> alert list \<times> alerting_service"
where
  "check_trend_alerts now svc [] = ([], svc)"
| "check_trend_alerts now svc (trend # rest) =
     (let (alerts, svc') = trend_step now svc trend;
          (more, svc'') = check_trend_alerts now svc' rest
      in (alerts @ more, svc''))"

definition percentage_change :: "rat \<Rightarrow> rat \<Rightarrow> rat" where
  "percentage_change prev_engagement_rate current_engagement_rate =
     (if prev_engagement_rate \<noteq> 0
      then fmul (fdiv (fsub current_engagement_rate prev_engagement_rate)
                   \<bar>prev_engagement_rate\<bar>) 100
      else if current_engagement_rate > 0 then fl (CAMPAIGN_ENGAGEMENT_SPIKE_PERCENTAGE + 1)
      else 0)"

definition performance_alerts ::
  "datetime \<Rightarrow> alerting_service \<Rightarrow> campaign \<Rightarrow> rat \<Rightarrow> alert list"
where
  "performance_alerts now svc c prev_engagement_rate =
     (let current_engagement_rate = avg_engagement_rate c;
          pct = percentage_change prev_engagement_rate current_engagement_rate
      in if pct \<ge> CAMPAIGN_ENGAGEMENT_SPIKE_PERCENTAGE
         then [Alert now (service_user_id svc)
                 (EngagementSpikedMessage (name c) pct current_engagement_rate)
                 ''campaign_performance_change'' ''warning''
                 (Some (campaign_id c)) (Some ''campaign'')]
         else if pct \<le> CAMPAIGN_ENGAGEMENT_DROP_PERCENTAGE
         then [Alert now (service_user_id svc)
                 (EngagementDroppedMessage (name c) \<bar>pct\<bar> current_engagement_rate)
                 ''campaign_performance_change'' ''critical''
                 (Some (campaign_id c)) (Some ''campaign'')]
         else [])"

definition record_campaign :: "datetime \<Rightarrow> alerting_service \<Rightarrow> campaign \<Rightarrow> alerting_service" where
  "record_campaign now svc c =
     svc\<lparr>previous_campaign_metrics :=
           (previous_campaign_metrics svc)(campaign_id c \<mapsto>
              \<lparr>prev_avg_engagement_rate = avg_engagement_rate c,
               prev_total_likes = total_likes c, observed_at = now\<rparr>)\<rparr>"

definition campaign_step ::
  "datetime \<Rightarrow> alerting_service \<Rightarrow> campaign \<Rightarrow> alert list \<times> alerting_service"
where
  "campaign_step now svc c =
     (if status c \<noteq> Active then ([], svc)
      else
        ((case previous_campaign_metrics svc (campaign_id c) of
            None \<Rightarrow> []
          | Some prev_metrics \<Rightarrow>
              performance_alerts now svc c (prev_avg_engagement_rate prev_metrics)),
         record_campaign now svc c))"

fun check_campaign_performance_alerts ::
  "datetime \<Rightarrow> alerting_service \<Rightarrow> campaign list \<Rightarrow> alert list \<times> alerting_service"
where
  "check_campaign_performance_alerts now svc [] = ([], svc)"
| "check_campaign_performance_alerts now svc (c # rest) =
     (let (alerts, svc') = campaign_step now svc c;
          (more, svc'') = check_campaign_performance_alerts now svc' rest
      in (alerts @ more, svc''))"

definition pre_attached_label :: "post \<Rightarrow> string option" where
  \<comment> \<open>\<^verbatim>\<open>sentiment_label\<close>, or else the label of the \<^verbatim>\<open>sentiment\<close> dict\<close>
  "pre_attached_label p =
     (let l1 = sentiment_label p
      in case sentiment p of None \<Rightarrow> l1 | Some l \<Rightarrow> if falsy l1 then l else l1)"

definition resolve_label :: "(string \<Rightarrow> string option) \<Rightarrow> string \<Rightarrow> post \<Rightarrow> string option" where
  \<comment> \<open>the label of a post whose content is the non-empty \<open>text\<close>\<close>
  "resolve_label analyze_sentiment text p =
     (let l2 = pre_attached_label p;
          l3 = (if falsy l2 then analyze_sentiment text else l2)
      in l3)"

definition counts_negative :: "(string \<Rightarrow> string option) \<Rightarrow> post \<Rightarrow> bool" where
  "counts_negative analyze_sentiment p =
     (case content p of
        None \<Rightarrow> False
      | Some text \<Rightarrow>
          if text = [] then False
          else resolve_label analyze_sentiment text p = Some ''negative'')"

definition negative_post_count :: "(string \<Rightarrow> string option) \<Rightarrow> post list \<Rightarrow> nat" where
  "negative_post_count analyze_sentiment posts =
     length (filter (counts_negative analyze_sentiment) posts)"

text \<open>
  The tally in the words of the specification (4.5): the label of an item is its
  pre-attached label if present, else the classifier's label of its text; an item with
  neither has no label and does not count.
\<close>

definition spec_resolved_label :: "(string \<Rightarrow> string option) \<Rightarrow> post \<Rightarrow> string option" where
  "spec_resolved_label classify p =
     (if \<not> falsy (pre_attached_label p) then pre_attached_label p
      else case content p of
             None \<Rightarrow> None
           | Some text \<Rightarrow> if text = [] then None else classify text)"

definition spec_negative_count :: "(string \<Rightarrow> string option) \<Rightarrow> post list \<Rightarrow> nat" where
  "spec_negative_count classify posts =
     length (filter (\<lambda>p. spec_resolved_label classify p = Some ''negative'') posts)"

definition check_sentiment_alerts ::
  "datetime \<Rightarrow> alerting_service \<Rightarrow> campaign \<Rightarrow> post list \<Rightarrow> alert list"
where
  "check_sentiment_alerts now svc c campaign_posts =
     (case ai_analyzer svc of
        None \<Rightarrow> []
      | Some analyze_sentiment \<Rightarrow>
          if campaign_posts = [] \<or> length campaign_posts < NEGATIVE_SENTIMENT_POST_COUNT then []
          else
            let n = negative_post_count analyze_sentiment campaign_posts
            in if n > 0 then
                 let negative_percentage =
                       fmul (truediv (int n) (int (length campaign_posts))) 100
                 in if negative_percentage \<ge> fmul NEGATIVE_SENTIMENT_THRESHOLD 100
                    then [Alert now (service_user_id svc)
                            (NegativeSentimentMessage negative_percentage (name c) n
                               (length campaign_posts))
                            ''negative_sentiment_surge'' ''critical''
                            (Some (campaign_id c)) (Some ''campaign'')]
                    else []
               else [])"

subsection \<open>Sample data\<close>

definition sample_campaign :: campaign where
  "sample_campaign =
     \<lparr>campaign_id = ''camp001'', user_id = ''user001'', name = ''New Year Promo'',
      start_date = Some 100, end_date = Some 200,
      tracked_keywords = [], tracked_hashtags = [], tracked_accounts = [],
      status = Planning, total_posts = 0, total_likes = 0, total_shares = 0,
      total_comments = 0, total_reach = 0, avg_engagement_rate = 0,
      associated_post_ids = []\<rparr>"

definition sample_post :: post where
  "sample_post =
     \<lparr>post_id = ''post1'', account_id = ''twitter:MyBrandAccount'', platform = ''twitter'',
      content = Some ''Our #Promo is here'', timestamp = TsDatetime 150,
      likes = Some 10, shares = Some 1, comments_count = Some 1, reach = Some 100,
      sentiment_label = None, sentiment = None\<rparr>"


section \<open>Properties\<close>

subsection \<open>Marking an alert as read\<close>





subsection \<open>Aggregation over an empty list\<close>

lemma update_metrics_empty:
  "update_metrics now [] c =
     c\<lparr>total_posts := 0, total_likes := 0, total_shares := 0, total_comments := 0,
       total_reach := 0, avg_engagement_rate := 0, associated_post_ids := []\<rparr>"
  by (simp add: update_metrics_def)

text \<open>
  Claim C1: with an empty list the totals are reset and the ids cleared, but the early
  \<^verbatim>\<open>return\<close> leaves before \<^verbatim>\<open>self.update_status()\<close>. A campaign that started at time
  100 and is still \<open>Planning\<close> stays \<open>Planning\<close> at time 150, where
  \<^verbatim>\<open>update_status\<close> and a non-empty call both make it \<open>Active\<close>.
\<close>

theorem update_metrics_empty_keeps_status:
  "status (update_metrics 150 [] sample_campaign) = Planning
   \<and> status (update_status 150 sample_campaign) = Active
   \<and> status (update_metrics 150 [sample_post] sample_campaign) = Active
   \<and> total_posts (update_metrics 150 [] sample_campaign) = 0
   \<and> total_likes (update_metrics 150 [] sample_campaign) = 0
   \<and> total_shares (update_metrics 150 [] sample_campaign) = 0
   \<and> total_comments (update_metrics 150 [] sample_campaign) = 0
   \<and> total_reach (update_metrics 150 [] sample_campaign) = 0
   \<and> avg_engagement_rate (update_metrics 150 [] sample_campaign) = 0
   \<and> associated_post_ids (update_metrics 150 [] sample_campaign) = []"
  by (simp add: update_metrics_def update_status_def update_status_logic_def
      sample_campaign_def sample_post_def Let_def)

subsection \<open>Wrong entity types\<close>

lemma get_posts_for_campaign_not_campaign:
  "\<not> is_campaign v \<Longrightarrow> get_posts_for_campaign v all_posts = Inr []"
  by (cases v) simp_all

lemma get_posts_for_campaign_not_list:
  "\<not> is_list all_posts \<Longrightarrow> get_posts_for_campaign v all_posts = Inr []"
  by (cases v; cases all_posts) simp_all

text \<open>
  Claim C2, as stated, fails: a value that is not a campaign makes
  \<^verbatim>\<open>get_posts_for_campaign\<close> return the empty list as a normal result, and so does
  \<^verbatim>\<open>process_campaigns\<close> on a list holding such a value.
\<close>

theorem wrong_type_returns_normally:
  "get_posts_for_campaign PNone (PList [PPost sample_post]) = Inr []
   \<and> get_posts_for_campaign (PPost sample_post) (PList [PPost sample_post]) = Inr []
   \<and> process_campaigns 150 (PList [PCampaign sample_campaign, PNone]) (PList [PPost sample_post]) = Inr []
   \<and> process_campaigns 150 (PCampaign sample_campaign) (PList [PPost sample_post]) = Inr []"
  by (simp add: process_campaigns_def)

text \<open>
  Claim C2, amended: handed a value of the wrong type, the matcher and
  \<^verbatim>\<open>process_campaigns\<close> do not abort but return the empty list as a normal result:
  \<^verbatim>\<open>get_posts_for_campaign\<close> when its first argument is not a campaign or its second
  is not a list, \<^verbatim>\<open>process_campaigns\<close> when its first argument is not a list or holds
  a value that is not a campaign.
\<close>

theorem wrong_type_gives_empty_list:
  "(\<not> is_campaign v \<longrightarrow> get_posts_for_campaign v all_posts = Inr [])
   \<and> (\<not> is_list all_posts \<longrightarrow> get_posts_for_campaign v all_posts = Inr [])
   \<and> (\<not> is_list campaign_list \<longrightarrow> process_campaigns now campaign_list all_posts = Inr [])
   \<and> (\<not> list_all is_campaign vs \<longrightarrow> process_campaigns now (PList vs) all_posts = Inr [])"
proof -
  have "\<not> is_list campaign_list \<longrightarrow> process_campaigns now campaign_list all_posts = Inr []"
    by (cases campaign_list) (simp_all add: process_campaigns_def)
  moreover have "\<not> list_all is_campaign vs \<longrightarrow> process_campaigns now (PList vs) all_posts = Inr []"
    by (simp add: process_campaigns_def)
  ultimately show ?thesis
    using get_posts_for_campaign_not_campaign get_posts_for_campaign_not_list by blast
qed

theorem wrong_type_gives_empty_list_witness:
  "\<not> is_campaign PNone
   \<and> get_posts_for_campaign PNone PNone = Inr []
   \<and> \<not> is_list PNone
   \<and> process_campaigns 150 PNone PNone = Inr []
   \<and> \<not> list_all is_campaign [PCampaign sample_campaign, PNone]
   \<and> process_campaigns 150 (PList [PCampaign sample_campaign, PNone]) PNone = Inr []"
  using wrong_type_gives_empty_list [of PNone PNone PNone 150 "[PCampaign sample_campaign, PNone]"]
  by simp

subsection \<open>Matching\<close>

lemma relevant_posts_filter:
  "relevant_posts c ps = Inr matched \<Longrightarrow>
   matched = filter (\<lambda>p. date_eligible c p \<and> matches_criteria c p) ps"
  by (induction ps arbitrary: matched) (auto split: sum.splits if_splits)

lemma normalize_timestamp_returns:
  assumes "\<forall>e. ts \<noteq> TsNumber (Inl e)"
  shows "\<exists>t. normalize_timestamp ts = Inr t"
proof (cases ts)
  case (TsNumber x)
  with assms show ?thesis by (cases x) auto
next
  case (TsString s)
  then show ?thesis by (cases s) auto
qed auto

lemma relevant_posts_returns:
  "\<forall>p \<in> set ps. \<forall>e. timestamp p \<noteq> TsNumber (Inl e) \<Longrightarrow> \<exists>matched. relevant_posts c ps = Inr matched"
proof (induction ps)
  case Nil
  show ?case by simp
next
  case (Cons p ps)
  then obtain rest where rest: "relevant_posts c ps = Inr rest" by auto
  from Cons.prems have "\<forall>e. timestamp p \<noteq> TsNumber (Inl e)" by simp
  then obtain t where "normalize_timestamp (timestamp p) = Inr t"
    using normalize_timestamp_returns by blast
  with rest show ?case by simp
qed

lemma set_social_media_posts:
  "p \<in> set (social_media_posts vs) \<longleftrightarrow> PPost p \<in> set vs"
  by (induction vs rule: social_media_posts.induct) auto

lemma no_criteria_no_match:
  "tracked_keywords c = [] \<Longrightarrow> tracked_hashtags c = [] \<Longrightarrow> tracked_accounts c = []
   \<Longrightarrow> \<not> matches_criteria c p"
  by (simp add: matches_criteria_def)

lemma no_criteria_result_empty:
  assumes "tracked_keywords c = []" and "tracked_hashtags c = []" and "tracked_accounts c = []"
  shows "get_posts_for_campaign (PCampaign c) all_posts = Inr matched \<Longrightarrow> matched = []"
    and "\<forall>p. PPost p \<in> set vs \<longrightarrow> (\<forall>e. timestamp p \<noteq> TsNumber (Inl e)) \<Longrightarrow>
         get_posts_for_campaign (PCampaign c) (PList vs) = Inr []"
proof -
  have empty: "relevant_posts c ps = Inr ms \<Longrightarrow> ms = []" for ps ms
    using assms relevant_posts_filter [of c ps ms] by (simp add: no_criteria_no_match)
  show "get_posts_for_campaign (PCampaign c) all_posts = Inr matched \<Longrightarrow> matched = []"
    using empty by (cases all_posts) auto
  assume "\<forall>p. PPost p \<in> set vs \<longrightarrow> (\<forall>e. timestamp p \<noteq> TsNumber (Inl e))"
  then have "\<forall>p \<in> set (social_media_posts vs). \<forall>e. timestamp p \<noteq> TsNumber (Inl e)"
    by (simp add: set_social_media_posts)
  then obtain ms where "relevant_posts c (social_media_posts vs) = Inr ms"
    using relevant_posts_returns by blast
  with empty show "get_posts_for_campaign (PCampaign c) (PList vs) = Inr []" by auto
qed

text \<open>
  Claim C7: a campaign that tracks no keyword, no hashtag and no account is to return
  the empty list for every list of items. The matcher converts a numeric timestamp
  with \<^verbatim>\<open>datetime.fromtimestamp\<close> outside any \<^verbatim>\<open>try\<close>, before it looks at the criteria:
  one post whose number does not convert (here a \<^verbatim>\<open>ValueError\<close>, as for a Unix time in
  milliseconds) makes the call raise instead of returning the empty list. The string
  branch beside it catches the \<^verbatim>\<open>ValueError\<close> of \<^verbatim>\<open>fromisoformat\<close> and skips the post.
\<close>

theorem no_criteria_unconvertible_timestamp_raises:
  "tracked_keywords sample_campaign = [] \<and> tracked_hashtags sample_campaign = []
   \<and> tracked_accounts sample_campaign = []
   \<and> get_posts_for_campaign (PCampaign sample_campaign)
        (PList [PPost sample_post, PPost (sample_post\<lparr>timestamp := TsNumber (Inl ValueError)\<rparr>)])
      = Inl ValueError
   \<and> get_posts_for_campaign (PCampaign sample_campaign)
        (PList [PPost sample_post, PPost (sample_post\<lparr>timestamp := TsString None\<rparr>)])
      = Inr []
   \<and> get_posts_for_campaign (PCampaign sample_campaign)
        (PList [PPost sample_post, PPost (sample_post\<lparr>timestamp := TsNumber (Inr 150)\<rparr>)])
      = Inr []"
  by (simp add: sample_campaign_def sample_post_def date_eligible_def matches_criteria_def)

lemma lower_Nil_iff: "lower k = [] \<longleftrightarrow> k = []"
  by (simp add: lower_def)

lemma post_content_lower_absent:
  "falsy (content p) \<Longrightarrow> post_content_lower p = []"
  by (auto simp: falsy_def post_content_lower_def)

lemma matches_criteria_absent_text:
  assumes "falsy (content p)"
  shows "matches_criteria c p \<longleftrightarrow>
           account_id p \<in> set (tracked_accounts c) \<or> [] \<in> set (tracked_keywords c)"
proof -
  have "list_ex (\<lambda>keyword. sublist (lower keyword) []) ks \<longleftrightarrow> [] \<in> set ks" for ks
    by (induction ks) (auto simp: lower_Nil_iff)
  moreover have "\<not> list_ex (\<lambda>hashtag. sublist (CHR ''#'' # lower hashtag) []) hs" for hs
    by (induction hs) auto
  ultimately show ?thesis
    using post_content_lower_absent [OF assms]
    by (auto simp: matches_criteria_def)
qed

text \<open>
  Claim C8, as stated, fails: the empty keyword is a substring of the empty text, so a
  campaign tracking \<^verbatim>\<open>""\<close> as a keyword matches a post without text from an account it
  does not track.
\<close>

theorem absent_text_matches_empty_keyword:
  "content (sample_post\<lparr>content := None\<rparr>) = None
   \<and> account_id (sample_post\<lparr>content := None\<rparr>)
       \<notin> set (tracked_accounts (sample_campaign\<lparr>tracked_keywords := ['''']\<rparr>))
   \<and> get_posts_for_campaign (PCampaign (sample_campaign\<lparr>tracked_keywords := ['''']\<rparr>))
        (PList [PPost (sample_post\<lparr>content := None\<rparr>)])
      = Inr [sample_post\<lparr>content := None\<rparr>]"
  by (simp add: sample_campaign_def sample_post_def date_eligible_def matches_criteria_def
      post_content_lower_def lower_def)

text \<open>
  Claim C8, amended: a post whose content is \<^verbatim>\<open>None\<close> or empty is matched if and only
  if it is date-eligible and either its account id is tracked or the tracked keywords
  contain the empty string; the hashtags and the non-empty keywords have no effect.
\<close>

theorem absent_text_matches_by_account:
  assumes "falsy (content p)"
    and "get_posts_for_campaign (PCampaign c) (PList all_posts) = Inr matched"
  shows "p \<in> set matched \<longleftrightarrow>
           PPost p \<in> set all_posts \<and> date_eligible c p \<and>
           (account_id p \<in> set (tracked_accounts c) \<or> [] \<in> set (tracked_keywords c))"
proof -
  have "matched = filter (\<lambda>p. date_eligible c p \<and> matches_criteria c p) (social_media_posts all_posts)"
    using assms(2) by (simp add: relevant_posts_filter)
  then show ?thesis
    using matches_criteria_absent_text [OF assms(1), of c]
    by (auto simp: set_social_media_posts)
qed

theorem absent_text_matches_by_account_witness:
  "falsy (content (sample_post\<lparr>content := None\<rparr>))
   \<and> get_posts_for_campaign
        (PCampaign (sample_campaign\<lparr>tracked_hashtags := [''Promo''],
                                     tracked_accounts := [''twitter:MyBrandAccount'']\<rparr>))
        (PList [PPost (sample_post\<lparr>content := None\<rparr>)])
      = Inr [sample_post\<lparr>content := None\<rparr>]
   \<and> date_eligible (sample_campaign\<lparr>tracked_hashtags := [''Promo''],
                                     tracked_accounts := [''twitter:MyBrandAccount'']\<rparr>)
        (sample_post\<lparr>content := None\<rparr>)"
proof -
  let ?c = "sample_campaign\<lparr>tracked_hashtags := [''Promo''],
                            tracked_accounts := [''twitter:MyBrandAccount'']\<rparr>"
  let ?p = "sample_post\<lparr>content := None\<rparr>"
  have f: "falsy (content ?p)" by (simp add: falsy_def)
  have g: "get_posts_for_campaign (PCampaign ?c) (PList [PPost ?p]) = Inr [?p]"
    by (simp add: sample_campaign_def sample_post_def date_eligible_def matches_criteria_def)
  have "?p \<in> set [?p]" by simp
  then have "date_eligible ?c ?p"
    using absent_text_matches_by_account [OF f g] by blast
  with f g show ?thesis by blast
qed

subsection \<open>Engagement rate\<close>

lemma update_status_metrics:
  "avg_engagement_rate (update_status now c) = avg_engagement_rate c"
  "total_posts (update_status now c) = total_posts c"
  "total_likes (update_status now c) = total_likes c"
  "total_shares (update_status now c) = total_shares c"
  "total_comments (update_status now c) = total_comments c"
  "total_reach (update_status now c) = total_reach c"
  by (simp_all add: update_status_def update_status_logic_def)

lemma update_metrics_nonempty_rate:
  "posts \<noteq> [] \<Longrightarrow>
   avg_engagement_rate (update_metrics now posts c) =
     engagement_rate
       (sum_present likes posts + sum_present shares posts + sum_present comments_count posts)
       (sum_present reach posts) (int (length posts))"
  by (simp add: update_metrics_def Let_def update_status_metrics)

lemma update_metrics_nonempty_totals:
  "posts \<noteq> [] \<Longrightarrow>
   total_posts (update_metrics now posts c) = int (length posts)
   \<and> total_likes (update_metrics now posts c) = sum_present likes posts
   \<and> total_shares (update_metrics now posts c) = sum_present shares posts
   \<and> total_comments (update_metrics now posts c) = sum_present comments_count posts
   \<and> total_reach (update_metrics now posts c) = sum_present reach posts"
  by (simp add: update_metrics_def Let_def update_status_metrics)

text \<open>
  Claim C3, as stated, fails where the summed reach is negative: the list is not empty,
  the reach is neither positive nor zero, and the rate is the per-post average, not 0.
\<close>

theorem negative_reach_rate_not_zero:
  "sum_present reach [sample_post\<lparr>likes := Some 3, reach := Some (- 1)\<rparr>] = - 1
   \<and> avg_engagement_rate
        (update_metrics 150 [sample_post\<lparr>likes := Some 3, reach := Some (- 1)\<rparr>] sample_campaign)
      = 5
   \<and> avg_engagement_rate
        (update_metrics 150 [sample_post\<lparr>likes := Some 3, reach := Some (- 1)\<rparr>] sample_campaign)
      \<noteq> 0"
proof -
  have "round2 (truediv 5 1) = 5" by code_simp
  then show ?thesis
    by (simp add: update_metrics_nonempty_rate engagement_rate_def sum_present_def sample_post_def)
qed

text \<open>
  Claim C3, amended: for a non-empty list with \<open>E\<close> the sum of the likes, shares and
  comment counts that are present, \<open>R\<close> the sum of the reach values that are present and
  \<open>P\<close> the number of posts, the rate is \<^verbatim>\<open>round(E / R * 100, 2)\<close> when \<open>R > 0\<close> and
  \<^verbatim>\<open>round(E / P, 2)\<close> otherwise, that is when \<open>R \<le> 0\<close>; \<open>P > 0\<close> always holds there, so
  the value \<open>0.0\<close> of the last branch is never assigned.
\<close>

theorem engagement_rate_regimes:
  assumes "posts \<noteq> []"
    and "E = total_likes (update_metrics now posts c) + total_shares (update_metrics now posts c)
             + total_comments (update_metrics now posts c)"
    and "R = sum_present reach posts"
    and "P = int (length posts)"
  shows "(R > 0 \<longrightarrow>
            avg_engagement_rate (update_metrics now posts c) = round2 (fmul (truediv E R) 100))
         \<and> (R \<le> 0 \<longrightarrow> avg_engagement_rate (update_metrics now posts c) = round2 (truediv E P))
         \<and> P > 0
         \<and> E = sum_present likes posts + sum_present shares posts + sum_present comments_count posts
         \<and> total_reach (update_metrics now posts c) = R
         \<and> total_posts (update_metrics now posts c) = P"
proof -
  have "P > 0" using assms(1,4) by simp
  moreover have e: "E = sum_present likes posts + sum_present shares posts + sum_present comments_count posts"
    using assms(1,2) update_metrics_nonempty_totals [of posts now c] by simp
  ultimately show ?thesis
    using assms(1,3,4) update_metrics_nonempty_totals [of posts now c]
    by (simp add: update_metrics_nonempty_rate engagement_rate_def)
qed

theorem engagement_rate_regimes_witness:
  "[sample_post] \<noteq> []
   \<and> sum_present reach [sample_post] = 100
   \<and> avg_engagement_rate (update_metrics 150 [sample_post] sample_campaign) = 12
   \<and> sum_present reach [sample_post\<lparr>reach := None\<rparr>] = 0
   \<and> avg_engagement_rate (update_metrics 150 [sample_post\<lparr>reach := None\<rparr>] sample_campaign) = 12"
proof -
  have r1: "sum_present reach [sample_post] = 100"
    by (simp add: sum_present_def sample_post_def)
  have r2: "sum_present reach [sample_post\<lparr>reach := None\<rparr>] = 0"
    by (simp add: sum_present_def)
  have t1: "total_likes (update_metrics 150 [sample_post] sample_campaign)
            + total_shares (update_metrics 150 [sample_post] sample_campaign)
            + total_comments (update_metrics 150 [sample_post] sample_campaign) = 12"
    by (simp add: update_metrics_nonempty_totals sum_present_def sample_post_def)
  have t2: "total_likes (update_metrics 150 [sample_post\<lparr>reach := None\<rparr>] sample_campaign)
            + total_shares (update_metrics 150 [sample_post\<lparr>reach := None\<rparr>] sample_campaign)
            + total_comments (update_metrics 150 [sample_post\<lparr>reach := None\<rparr>] sample_campaign) = 12"
    by (simp add: update_metrics_nonempty_totals sum_present_def sample_post_def)
  have v1: "round2 (fmul (truediv 12 100) 100) = 12" by code_simp
  have v2: "round2 (truediv 12 1) = 12" by code_simp
  have "avg_engagement_rate (update_metrics 150 [sample_post] sample_campaign) = 12"
    using engagement_rate_regimes [of "[sample_post]" 12 150 sample_campaign 100 1] r1 t1 v1
    by simp
  moreover have "avg_engagement_rate (update_metrics 150 [sample_post\<lparr>reach := None\<rparr>] sample_campaign) = 12"
    using engagement_rate_regimes [of "[sample_post\<lparr>reach := None\<rparr>]" 12 150 sample_campaign 0 1] r2 t2 v2
    by simp
  ultimately show ?thesis using r1 r2 by simp
qed

subsection \<open>Trend tracker\<close>

lemma trend_step_skip:
  "falsy (td_term e) \<Longrightarrow> trend_step now svc e = ([], svc)"
  by (simp add: trend_step_def)

lemma trend_step_seen:
  assumes "\<not> falsy (td_term e)"
  shows "seen_trends (snd (trend_step now svc e)) (the (td_term e))
         = Some \<lparr>volume = get_count e, seen_at = now\<rparr>"
  using assms
  by (cases "seen_trends svc (the (td_term e))") (simp_all add: trend_step_def Let_def)

lemma trend_step_other:
  assumes "td_term e \<noteq> Some t"
  shows "seen_trends (snd (trend_step now svc e)) t = seen_trends svc t"
proof (cases "falsy (td_term e)")
  case True
  then show ?thesis by (simp add: trend_step_skip)
next
  case False
  then obtain u where u: "td_term e = Some u" by (auto simp: falsy_def)
  with assms have "u \<noteq> t" by simp
  with False u show ?thesis
    by (cases "seen_trends svc u") (simp_all add: trend_step_def Let_def)
qed

lemma trend_step_quiet:
  "get_count e < TREND_VOLUME_THRESHOLD \<Longrightarrow> fst (trend_step now svc e) = []"
  by (cases "seen_trends svc (the (td_term e))") (simp_all add: trend_step_def Let_def)

lemma check_trend_alerts_append:
  "check_trend_alerts now svc (xs @ ys) =
     (fst (check_trend_alerts now svc xs)
        @ fst (check_trend_alerts now (snd (check_trend_alerts now svc xs)) ys),
      snd (check_trend_alerts now (snd (check_trend_alerts now svc xs)) ys))"
  by (induction xs arbitrary: svc) (simp_all add: split_beta Let_def)

lemma check_trend_alerts_other:
  "\<forall>e \<in> set es. td_term e \<noteq> Some t \<Longrightarrow>
   seen_trends (snd (check_trend_alerts now svc es)) t = seen_trends svc t"
  by (induction es arbitrary: svc) (simp_all add: split_beta Let_def trend_step_other)

lemma check_trend_alerts_latest:
  assumes "\<not> falsy (td_term e)" and "\<forall>e' \<in> set post. td_term e' \<noteq> td_term e"
  shows "seen_trends (snd (check_trend_alerts now svc (pre @ e # post))) (the (td_term e))
         = Some \<lparr>volume = get_count e, seen_at = now\<rparr>"
proof -
  obtain t where t: "td_term e = Some t" using assms(1) by (auto simp: falsy_def)
  have "\<forall>e' \<in> set post. td_term e' \<noteq> Some t" using assms(2) t by simp
  then show ?thesis
    using trend_step_seen [OF assms(1)] t
    by (simp add: check_trend_alerts_append split_beta Let_def check_trend_alerts_other)
qed

lemma check_trend_alerts_skip:
  assumes "falsy (td_term e)"
  shows "check_trend_alerts now svc (pre @ e # post) = check_trend_alerts now svc (pre @ post)"
  using assms
  by (simp add: check_trend_alerts_append [of now svc pre] trend_step_skip)

text \<open>
  Claim C5: starting from a fresh service, three calls with \<^verbatim>\<open>("X", 150)\<close>,
  \<^verbatim>\<open>("X", 150)\<close> and \<^verbatim>\<open>("X", 210)\<close> give one \<^verbatim>\<open>info\<close> alert, no alert and one
  \<^verbatim>\<open>warning\<close> alert, and after each call the observation of the term holds the count
  of that call. In general, after a call the observation of every evaluated term holds
  the count of the last entry of the call that names the term.
\<close>

theorem trend_tracker_three_calls:
  assumes "check_trend_alerts t1 (AlertingService uid analyzer)
             [\<lparr>td_term = Some ''X'', td_count = Some 150\<rparr>] = (alerts1, svc1)"
    and "check_trend_alerts t2 svc1 [\<lparr>td_term = Some ''X'', td_count = Some 150\<rparr>] = (alerts2, svc2)"
    and "check_trend_alerts t3 svc2 [\<lparr>td_term = Some ''X'', td_count = Some 210\<rparr>] = (alerts3, svc3)"
  shows "alerts1 = [Alert t1 uid (NewTrendMessage ''X'' 150) ''new_trend'' ''info''
                      (Some ''X'') (Some ''trend_term'')]
         \<and> alerts2 = []
         \<and> alerts3 = [Alert t3 uid (TrendGrowingMessage ''X'' 210 60) ''trend_velocity_spike''
                        ''warning'' (Some ''X'') (Some ''trend_term'')]
         \<and> map severity alerts1 = [''info''] \<and> map severity alerts3 = [''warning'']
         \<and> seen_trends svc1 ''X'' = Some \<lparr>volume = 150, seen_at = t1\<rparr>
         \<and> seen_trends svc2 ''X'' = Some \<lparr>volume = 150, seen_at = t2\<rparr>
         \<and> seen_trends svc3 ''X'' = Some \<lparr>volume = 210, seen_at = t3\<rparr>
         \<and> (\<not> falsy (td_term e) \<and> (\<forall>e' \<in> set post. td_term e' \<noteq> td_term e) \<longrightarrow>
              map_option volume
                (seen_trends (snd (check_trend_alerts now svc (pre @ e # post))) (the (td_term e)))
              = Some (get_count e))"
proof -
  have s1: "svc1 = (AlertingService uid analyzer)
              \<lparr>seen_trends := [''X'' \<mapsto> \<lparr>volume = 150, seen_at = t1\<rparr>]\<rparr>"
    and a1: "alerts1 = [Alert t1 uid (NewTrendMessage ''X'' 150) ''new_trend'' ''info''
                          (Some ''X'') (Some ''trend_term'')]"
    using assms(1)
    by (auto simp: trend_step_def Let_def AlertingService_def falsy_def get_count_def
        TREND_VOLUME_THRESHOLD_def)
  have s2: "svc2 = (AlertingService uid analyzer)
              \<lparr>seen_trends := [''X'' \<mapsto> \<lparr>volume = 150, seen_at = t2\<rparr>]\<rparr>"
    and a2: "alerts2 = []"
    using assms(2) unfolding s1
    by (auto simp: trend_step_def Let_def AlertingService_def falsy_def get_count_def
        TREND_VOLUME_THRESHOLD_def TREND_VELOCITY_THRESHOLD_def)
  have s3: "svc3 = (AlertingService uid analyzer)
              \<lparr>seen_trends := [''X'' \<mapsto> \<lparr>volume = 210, seen_at = t3\<rparr>]\<rparr>"
    and a3: "alerts3 = [Alert t3 uid (TrendGrowingMessage ''X'' 210 60) ''trend_velocity_spike''
                          ''warning'' (Some ''X'') (Some ''trend_term'')]"
    using assms(3) unfolding s2
    by (auto simp: trend_step_def Let_def AlertingService_def falsy_def get_count_def
        TREND_VOLUME_THRESHOLD_def TREND_VELOCITY_THRESHOLD_def)
  have sev: "map severity alerts1 = [''info'']" "map severity alerts3 = [''warning'']"
    unfolding a1 a3 by (simp_all add: Alert_def)
  have obs: "seen_trends svc1 ''X'' = Some \<lparr>volume = 150, seen_at = t1\<rparr>"
    "seen_trends svc2 ''X'' = Some \<lparr>volume = 150, seen_at = t2\<rparr>"
    "seen_trends svc3 ''X'' = Some \<lparr>volume = 210, seen_at = t3\<rparr>"
    unfolding s1 s2 s3 by simp_all
  have "\<not> falsy (td_term e) \<and> (\<forall>e' \<in> set post. td_term e' \<noteq> td_term e) \<longrightarrow>
        map_option volume
          (seen_trends (snd (check_trend_alerts now svc (pre @ e # post))) (the (td_term e)))
        = Some (get_count e)"
    by (simp add: check_trend_alerts_latest)
  with a1 a2 a3 sev obs show ?thesis by blast
qed

theorem trend_tracker_three_calls_witness:
  "map severity
     (fst (check_trend_alerts 1 (AlertingService ''u'' None)
             [\<lparr>td_term = Some ''X'', td_count = Some 150\<rparr>])) = [''info'']
   \<and> fst (check_trend_alerts 2
            (snd (check_trend_alerts 1 (AlertingService ''u'' None)
                    [\<lparr>td_term = Some ''X'', td_count = Some 150\<rparr>]))
            [\<lparr>td_term = Some ''X'', td_count = Some 150\<rparr>]) = []
   \<and> map severity
       (fst (check_trend_alerts 3
               (snd (check_trend_alerts 2
                       (snd (check_trend_alerts 1 (AlertingService ''u'' None)
                               [\<lparr>td_term = Some ''X'', td_count = Some 150\<rparr>]))
                       [\<lparr>td_term = Some ''X'', td_count = Some 150\<rparr>]))
               [\<lparr>td_term = Some ''X'', td_count = Some 210\<rparr>])) = [''warning'']
   \<and> \<not> falsy (td_term \<lparr>td_term = Some ''X'', td_count = Some 7\<rparr>)
   \<and> map_option volume
       (seen_trends
          (snd (check_trend_alerts 4 (AlertingService ''u'' None)
                  ([\<lparr>td_term = Some ''X'', td_count = Some 150\<rparr>]
                   @ \<lparr>td_term = Some ''X'', td_count = Some 7\<rparr>
                   # [\<lparr>td_term = Some ''Y'', td_count = Some 300\<rparr>])))
          ''X'') = Some 7"
proof -
  let ?x = "\<lparr>td_term = Some ''X'', td_count = Some 150\<rparr>"
  let ?x' = "\<lparr>td_term = Some ''X'', td_count = Some 210\<rparr>"
  let ?e = "\<lparr>td_term = Some ''X'', td_count = Some 7\<rparr>"
  let ?y = "\<lparr>td_term = Some ''Y'', td_count = Some 300\<rparr>"
  let ?r1 = "check_trend_alerts 1 (AlertingService ''u'' None) [?x]"
  let ?r2 = "check_trend_alerts 2 (snd ?r1) [?x]"
  let ?r3 = "check_trend_alerts 3 (snd ?r2) [?x']"
  have nf: "\<not> falsy (td_term ?e)" by (simp add: falsy_def)
  have other: "\<forall>e' \<in> set [?y]. td_term e' \<noteq> td_term ?e" by simp
  have gc: "get_count ?e = 7" by (simp add: get_count_def)
  have tx: "the (td_term ?e) = ''X''" by simp
  have p1: "?r1 = (fst ?r1, snd ?r1)" by (rule surjective_pairing)
  have p2: "?r2 = (fst ?r2, snd ?r2)" by (rule surjective_pairing)
  have p3: "?r3 = (fst ?r3, snd ?r3)" by (rule surjective_pairing)
  note inst = trend_tracker_three_calls [OF p1 p2 p3, where e = ?e and post = "[?y]"
      and now = 4 and svc = "AlertingService ''u'' None" and pre = "[?x]"]
  have c1: "map severity (fst ?r1) = [''info'']"
    using inst by (elim conjE) assumption
  have c2: "fst ?r2 = []"
    using inst by (elim conjE) assumption
  have c3: "map severity (fst ?r3) = [''warning'']"
    using inst by (elim conjE) assumption
  have "\<not> falsy (td_term ?e) \<and> (\<forall>e' \<in> set [?y]. td_term e' \<noteq> td_term ?e) \<longrightarrow>
        map_option volume
          (seen_trends (snd (check_trend_alerts 4 (AlertingService ''u'' None) ([?x] @ ?e # [?y])))
             (the (td_term ?e))) = Some (get_count ?e)"
    using inst by (elim conjE) assumption
  with nf other have "map_option volume
          (seen_trends (snd (check_trend_alerts 4 (AlertingService ''u'' None) ([?x] @ ?e # [?y])))
             (the (td_term ?e))) = Some (get_count ?e)"
    by (rule_tac mp) (assumption, rule conjI)
  then have c4: "map_option volume
       (seen_trends (snd (check_trend_alerts 4 (AlertingService ''u'' None) ([?x] @ ?e # [?y])))
          ''X'') = Some 7"
    unfolding gc tx .
  note c1 c2 c3 c4
  show ?thesis using c1 c2 c3 c4 nf by (intro conjI)
qed

text \<open>
  Claim C10: an entry whose term is missing or empty is skipped, with no alert and no
  change of the observations, so the call behaves as if the entry were not in the list.
  An entry with a non-empty term leaves the observation of its term at its count, also
  when the count is below the volume threshold and the entry raises no alert; after the
  call the observation holds the count of the last entry that names the term.
\<close>

theorem trend_entries_skipped_or_observed:
  "(falsy (td_term e) \<longrightarrow>
      trend_step now svc e = ([], svc)
      \<and> check_trend_alerts now svc (pre @ e # post) = check_trend_alerts now svc (pre @ post))
   \<and> (\<not> falsy (td_term e) \<longrightarrow>
        seen_trends (snd (trend_step now svc e)) (the (td_term e))
        = Some \<lparr>volume = get_count e, seen_at = now\<rparr>)
   \<and> (\<not> falsy (td_term e) \<and> get_count e < TREND_VOLUME_THRESHOLD \<longrightarrow>
        fst (trend_step now svc e) = []
        \<and> seen_trends (snd (trend_step now svc e)) (the (td_term e))
          = Some \<lparr>volume = get_count e, seen_at = now\<rparr>)
   \<and> (\<not> falsy (td_term e) \<and> (\<forall>e' \<in> set post. td_term e' \<noteq> td_term e) \<longrightarrow>
        seen_trends (snd (check_trend_alerts now svc (pre @ e # post))) (the (td_term e))
        = Some \<lparr>volume = get_count e, seen_at = now\<rparr>)"
  using trend_step_skip [of e now svc] check_trend_alerts_skip [of e now svc pre post]
    trend_step_seen [of e now svc] trend_step_quiet [of e now svc]
    check_trend_alerts_latest [of e post now svc pre]
  by blast

theorem trend_entries_skipped_or_observed_witness:
  "falsy (td_term \<lparr>td_term = Some [], td_count = Some 500\<rparr>)
   \<and> check_trend_alerts 1 (AlertingService ''u'' None)
       ([\<lparr>td_term = Some ''X'', td_count = Some 150\<rparr>]
        @ \<lparr>td_term = Some [], td_count = Some 500\<rparr> # [])
     = check_trend_alerts 1 (AlertingService ''u'' None)
         ([\<lparr>td_term = Some ''X'', td_count = Some 150\<rparr>] @ [])
   \<and> \<not> falsy (td_term \<lparr>td_term = Some ''Y'', td_count = Some 3\<rparr>)
   \<and> get_count \<lparr>td_term = Some ''Y'', td_count = Some 3\<rparr> < TREND_VOLUME_THRESHOLD
   \<and> fst (trend_step 1 (AlertingService ''u'' None) \<lparr>td_term = Some ''Y'', td_count = Some 3\<rparr>) = []
   \<and> seen_trends
        (snd (check_trend_alerts 1 (AlertingService ''u'' None)
                ([\<lparr>td_term = Some ''X'', td_count = Some 150\<rparr>]
                 @ \<lparr>td_term = Some ''Y'', td_count = Some 3\<rparr> # [])))
        ''Y''
      = Some \<lparr>volume = 3, seen_at = 1\<rparr>"
proof -
  let ?x = "\<lparr>td_term = Some ''X'', td_count = Some 150\<rparr>"
  let ?z = "\<lparr>td_term = Some [], td_count = Some 500\<rparr>"
  let ?y = "\<lparr>td_term = Some ''Y'', td_count = Some 3\<rparr>"
  let ?svc = "AlertingService ''u'' None"
  have fz: "falsy (td_term ?z)" by (simp add: falsy_def)
  have fy: "\<not> falsy (td_term ?y)" by (simp add: falsy_def)
  have gy: "get_count ?y = 3" by (simp add: get_count_def)
  have ly: "get_count ?y < TREND_VOLUME_THRESHOLD"
    by (simp add: get_count_def TREND_VOLUME_THRESHOLD_def)
  have "check_trend_alerts 1 ?svc ([?x] @ ?z # []) = check_trend_alerts 1 ?svc ([?x] @ [])"
    using trend_entries_skipped_or_observed [of ?z 1 ?svc "[?x]" "[]"] fz by blast
  moreover have "fst (trend_step 1 ?svc ?y) = []"
    using trend_entries_skipped_or_observed [of ?y 1 ?svc "[?x]" "[]"] fy ly by blast
  moreover have "seen_trends (snd (check_trend_alerts 1 ?svc ([?x] @ ?y # []))) ''Y''
                 = Some \<lparr>volume = 3, seen_at = 1\<rparr>"
    using trend_entries_skipped_or_observed [of ?y 1 ?svc "[?x]" "[]"] fy gy by simp
  ultimately show ?thesis using fz fy ly by blast
qed

subsection \<open>Campaign tracker\<close>

lemma check_campaign_performance_alerts_append:
  "check_campaign_performance_alerts now svc (xs @ ys) =
     (fst (check_campaign_performance_alerts now svc xs)
        @ fst (check_campaign_performance_alerts now
                 (snd (check_campaign_performance_alerts now svc xs)) ys),
      snd (check_campaign_performance_alerts now
             (snd (check_campaign_performance_alerts now svc xs)) ys))"
  by (induction xs arbitrary: svc) (simp_all add: split_beta Let_def)

lemma campaign_step_first_sight:
  "status c = Active \<Longrightarrow> previous_campaign_metrics svc (campaign_id c) = None \<Longrightarrow>
   fst (campaign_step now svc c) = []"
  by (simp add: campaign_step_def)

lemma campaign_step_recorded:
  "status c = Active \<Longrightarrow>
   previous_campaign_metrics (snd (campaign_step now svc c)) (campaign_id c)
   = Some \<lparr>prev_avg_engagement_rate = avg_engagement_rate c,
           prev_total_likes = total_likes c, observed_at = now\<rparr>"
  by (simp add: campaign_step_def record_campaign_def)

lemma campaign_step_compared:
  "status c = Active \<Longrightarrow> previous_campaign_metrics svc (campaign_id c) = Some prev \<Longrightarrow>
   fst (campaign_step now svc c) = performance_alerts now svc c (prev_avg_engagement_rate prev)"
  by (simp add: campaign_step_def)

lemma performance_alerts_spike:
  "percentage_change prev (avg_engagement_rate c) \<ge> 30 \<Longrightarrow>
   performance_alerts now svc c prev =
     [Alert now (service_user_id svc)
        (EngagementSpikedMessage (name c) (percentage_change prev (avg_engagement_rate c))
           (avg_engagement_rate c))
        ''campaign_performance_change'' ''warning'' (Some (campaign_id c)) (Some ''campaign'')]"
  by (simp add: performance_alerts_def Let_def CAMPAIGN_ENGAGEMENT_SPIKE_PERCENTAGE_def)

lemma performance_alerts_drop:
  "percentage_change prev (avg_engagement_rate c) \<le> - 20 \<Longrightarrow>
   performance_alerts now svc c prev =
     [Alert now (service_user_id svc)
        (EngagementDroppedMessage (name c) \<bar>percentage_change prev (avg_engagement_rate c)\<bar>
           (avg_engagement_rate c))
        ''campaign_performance_change'' ''critical'' (Some (campaign_id c)) (Some ''campaign'')]"
  by (simp add: performance_alerts_def Let_def CAMPAIGN_ENGAGEMENT_SPIKE_PERCENTAGE_def
      CAMPAIGN_ENGAGEMENT_DROP_PERCENTAGE_def)

lemma performance_alerts_quiet:
  "- 20 < percentage_change prev (avg_engagement_rate c) \<Longrightarrow>
   percentage_change prev (avg_engagement_rate c) < 30 \<Longrightarrow>
   performance_alerts now svc c prev = []"
  by (simp add: performance_alerts_def Let_def CAMPAIGN_ENGAGEMENT_SPIKE_PERCENTAGE_def
      CAMPAIGN_ENGAGEMENT_DROP_PERCENTAGE_def)

lemma performance_alerts_at_most_one:
  "length (performance_alerts now svc c prev) \<le> 1"
  by (simp add: performance_alerts_def Let_def)

lemma fl_31: "fl 31 = 31"
  by code_simp

lemma percentage_change_cases:
  "prev \<noteq> 0 \<Longrightarrow> percentage_change prev cur = fmul (fdiv (fsub cur prev) \<bar>prev\<bar>) 100"
  "cur > 0 \<Longrightarrow> percentage_change 0 cur = 31"
  "percentage_change 0 0 = 0"
  by (simp_all add: percentage_change_def CAMPAIGN_ENGAGEMENT_SPIKE_PERCENTAGE_def fl_31)

lemma percentage_change_example: "percentage_change (5 / 2) (3 / 2) = - 40"
  by code_simp

lemma severity_Alert: "severity (Alert now uid msg ty sev rid rty) = sev"
  by (simp add: Alert_def)

text \<open>
  Claim C4: in a pass over a list of campaigns, an \<open>Active\<close> campaign met with no
  earlier observation is recorded and raises nothing. Met with an earlier observation,
  it raises exactly one \<^verbatim>\<open>warning\<close> spike alert when \<open>pct \<ge> 30\<close>, exactly one
  \<^verbatim>\<open>critical\<close> drop alert when \<open>pct \<le> -20\<close>, nothing in between and never more than
  one alert, where \<open>pct\<close> is \<^verbatim>\<open>(current - previous) / abs(previous) * 100\<close> for a non-zero
  previous rate, a spike for a previous rate of 0 and a positive current rate, and 0
  when both are 0. From 2.5 to 1.5 the tracker raises one critical alert, from 0.0 to
  3.0 one warning alert.
\<close>

theorem campaign_tracker_alerts:
  assumes "status c = Active"
    and "snd (check_campaign_performance_alerts now svc0 pre) = svc"
    and "previous = prev_avg_engagement_rate prev"
    and "current = avg_engagement_rate c"
    and "pct = percentage_change previous current"
  shows "(fst (check_campaign_performance_alerts now svc0 (pre @ c # post))
        = fst (check_campaign_performance_alerts now svc0 pre)
        @ fst (campaign_step now svc c)
        @ fst (check_campaign_performance_alerts now (snd (campaign_step now svc c)) post))
     \<and> (previous_campaign_metrics svc (campaign_id c) = None \<longrightarrow>
        fst (campaign_step now svc c) = [])
     \<and> (previous_campaign_metrics (snd (campaign_step now svc c)) (campaign_id c)
        = Some \<lparr>prev_avg_engagement_rate = current, prev_total_likes = total_likes c,
        observed_at = now\<rparr>)
     \<and> (previous_campaign_metrics svc (campaign_id c) = Some prev \<and> pct \<ge> 30 \<longrightarrow>
        fst (campaign_step now svc c)
        = [Alert now (service_user_id svc) (EngagementSpikedMessage (name c) pct current)
        ''campaign_performance_change'' ''warning'' (Some (campaign_id c))
        (Some ''campaign'')])
     \<and> (previous_campaign_metrics svc (campaign_id c) = Some prev \<and> pct \<le> - 20 \<longrightarrow>
        fst (campaign_step now svc c)
        = [Alert now (service_user_id svc) (EngagementDroppedMessage (name c) \<bar>pct\<bar> current)
        ''campaign_performance_change'' ''critical'' (Some (campaign_id c))
        (Some ''campaign'')])
     \<and> (previous_campaign_metrics svc (campaign_id c) = Some prev \<and> - 20 < pct \<and> pct < 30 \<longrightarrow>
        fst (campaign_step now svc c) = [])
     \<and> (length (fst (campaign_step now svc c)) \<le> 1)
     \<and> (previous \<noteq> 0 \<longrightarrow> pct = fmul (fdiv (fsub current previous) \<bar>previous\<bar>) 100)
     \<and> (previous = 0 \<and> current > 0 \<longrightarrow> pct \<ge> 30)
     \<and> (previous = 0 \<and> current = 0 \<longrightarrow> pct = 0)
     \<and> (previous_campaign_metrics svc (campaign_id c) = Some prev \<and> previous = 5 / 2
        \<and> current = 3 / 2 \<longrightarrow>
        map severity (fst (campaign_step now svc c)) = [''critical''])
     \<and> (previous_campaign_metrics svc (campaign_id c) = Some prev \<and> previous = 0
        \<and> current = 3 \<longrightarrow>
        map severity (fst (campaign_step now svc c)) = [''warning''])"
proof -
  have c1: "fst (check_campaign_performance_alerts now svc0 (pre @ c # post))
         = fst (check_campaign_performance_alerts now svc0 pre)
           @ fst (campaign_step now svc c)
           @ fst (check_campaign_performance_alerts now (snd (campaign_step now svc c)) post)"
    using assms(2) by (simp add: check_campaign_performance_alerts_append split_beta Let_def)
  have c2: "previous_campaign_metrics svc (campaign_id c) = None \<longrightarrow>
           fst (campaign_step now svc c) = []"
    using assms(1) by (simp add: campaign_step_first_sight)
  have c3: "previous_campaign_metrics (snd (campaign_step now svc c)) (campaign_id c)
         = Some \<lparr>prev_avg_engagement_rate = current, prev_total_likes = total_likes c,
                 observed_at = now\<rparr>"
    using assms(1,4) by (simp add: campaign_step_recorded)
  have spike: "previous_campaign_metrics svc (campaign_id c) = Some prev \<and> pct \<ge> 30 \<longrightarrow>
           fst (campaign_step now svc c)
           = [Alert now (service_user_id svc) (EngagementSpikedMessage (name c) pct current)
                ''campaign_performance_change'' ''warning'' (Some (campaign_id c))
                (Some ''campaign'')]"
    using assms by (simp add: campaign_step_compared performance_alerts_spike)
  have drop: "previous_campaign_metrics svc (campaign_id c) = Some prev \<and> pct \<le> - 20 \<longrightarrow>
           fst (campaign_step now svc c)
           = [Alert now (service_user_id svc) (EngagementDroppedMessage (name c) \<bar>pct\<bar> current)
                ''campaign_performance_change'' ''critical'' (Some (campaign_id c))
                (Some ''campaign'')]"
    using assms by (simp add: campaign_step_compared performance_alerts_drop)
  have c6: "previous_campaign_metrics svc (campaign_id c) = Some prev \<and> - 20 < pct \<and> pct < 30 \<longrightarrow>
           fst (campaign_step now svc c) = []"
    using assms by (simp add: campaign_step_compared performance_alerts_quiet)
  have c7: "length (fst (campaign_step now svc c)) \<le> 1"
    using performance_alerts_at_most_one
    by (simp add: campaign_step_def split: option.split)
  have c8: "previous \<noteq> 0 \<longrightarrow> pct = fmul (fdiv (fsub current previous) \<bar>previous\<bar>) 100"
    using assms(5) by (simp add: percentage_change_cases)
  have c9: "previous = 0 \<and> current > 0 \<longrightarrow> pct \<ge> 30"
    using assms(5) by (simp add: percentage_change_cases)
  have c10: "previous = 0 \<and> current = 0 \<longrightarrow> pct = 0"
    using assms(5) by (simp add: percentage_change_cases)
  have c11: "previous_campaign_metrics svc (campaign_id c) = Some prev \<and> previous = 5 / 2
           \<and> current = 3 / 2 \<longrightarrow>
         map severity (fst (campaign_step now svc c)) = [''critical'']"
  proof (intro impI, elim conjE)
    assume p: "previous_campaign_metrics svc (campaign_id c) = Some prev"
      and v: "previous = 5 / 2" "current = 3 / 2"
    have "pct = - 40" unfolding assms(5) v by (rule percentage_change_example)
    then have "pct \<le> - 20" by simp
    with drop p show "map severity (fst (campaign_step now svc c)) = [''critical'']"
      by (simp add: severity_Alert)
  qed
  have c12: "previous_campaign_metrics svc (campaign_id c) = Some prev \<and> previous = 0
           \<and> current = 3 \<longrightarrow>
         map severity (fst (campaign_step now svc c)) = [''warning'']"
  proof (intro impI, elim conjE)
    assume p: "previous_campaign_metrics svc (campaign_id c) = Some prev"
      and "previous = 0" "current = 3"
    then have "pct = 31" using assms(5) by (simp add: percentage_change_cases)
    then have "pct \<ge> 30" by simp
    with spike p show "map severity (fst (campaign_step now svc c)) = [''warning'']"
      by (simp add: severity_Alert)
  qed
  show ?thesis
    using c1 c2 c3 spike drop c6 c7 c8 c9 c10 c11 c12 by (intro conjI)
qed

theorem campaign_tracker_alerts_witness:
  "status (sample_campaign\<lparr>status := Active, avg_engagement_rate := 3 / 2\<rparr>) = Active
   \<and> fst (check_campaign_performance_alerts 1 (AlertingService ''u'' None)
            [sample_campaign\<lparr>status := Active, avg_engagement_rate := 5 / 2\<rparr>]) = []
   \<and> map severity
       (fst (check_campaign_performance_alerts 2
               (snd (check_campaign_performance_alerts 1 (AlertingService ''u'' None)
                       [sample_campaign\<lparr>status := Active, avg_engagement_rate := 5 / 2\<rparr>]))
               [sample_campaign\<lparr>status := Active, avg_engagement_rate := 3 / 2\<rparr>]))
     = [''critical'']
   \<and> map severity
       (fst (check_campaign_performance_alerts 2
               (snd (check_campaign_performance_alerts 1 (AlertingService ''u'' None)
                       [sample_campaign\<lparr>status := Active, avg_engagement_rate := 0\<rparr>]))
               [sample_campaign\<lparr>status := Active, avg_engagement_rate := 3\<rparr>]))
     = [''warning'']"
proof -
  let ?fresh = "AlertingService ''u'' None"
  let ?c25 = "sample_campaign\<lparr>status := Active, avg_engagement_rate := 5 / 2\<rparr>"
  let ?c15 = "sample_campaign\<lparr>status := Active, avg_engagement_rate := 3 / 2\<rparr>"
  let ?c0 = "sample_campaign\<lparr>status := Active, avg_engagement_rate := 0\<rparr>"
  let ?c3 = "sample_campaign\<lparr>status := Active, avg_engagement_rate := 3\<rparr>"
  let ?s25 = "snd (check_campaign_performance_alerts 1 ?fresh [?c25])"
  let ?s0 = "snd (check_campaign_performance_alerts 1 ?fresh [?c0])"
  let ?p25 = "\<lparr>prev_avg_engagement_rate = 5 / 2, prev_total_likes = 0, observed_at = 1\<rparr>"
  let ?p0 = "\<lparr>prev_avg_engagement_rate = 0, prev_total_likes = 0, observed_at = 1\<rparr>"
  have act: "status ?c25 = Active" "status ?c15 = Active" "status ?c0 = Active" "status ?c3 = Active"
    by simp_all
  have nil: "snd (check_campaign_performance_alerts 1 ?fresh []) = ?fresh"
    "snd (check_campaign_performance_alerts 2 ?s25 []) = ?s25"
    "snd (check_campaign_performance_alerts 2 ?s0 []) = ?s0"
    by simp_all
  have unseen: "previous_campaign_metrics ?fresh (campaign_id ?c25) = None"
    by (simp add: AlertingService_def)
  have seen25: "previous_campaign_metrics ?s25 (campaign_id ?c15) = Some ?p25"
    by (simp add: campaign_step_def record_campaign_def sample_campaign_def)
  have seen0: "previous_campaign_metrics ?s0 (campaign_id ?c3) = Some ?p0"
    by (simp add: campaign_step_def record_campaign_def sample_campaign_def)
  note first = campaign_tracker_alerts [OF act(1) nil(1) refl refl refl,
      where prev = ?p25 and post = "[]"]
  note second = campaign_tracker_alerts [OF act(2) nil(2) refl refl refl,
      where prev = ?p25 and post = "[]"]
  note third = campaign_tracker_alerts [OF act(4) nil(3) refl refl refl,
      where prev = ?p0 and post = "[]"]
  have a1: "fst (check_campaign_performance_alerts 1 ?fresh ([] @ ?c25 # []))
            = fst (check_campaign_performance_alerts 1 ?fresh []) @ fst (campaign_step 1 ?fresh ?c25)
              @ fst (check_campaign_performance_alerts 1 (snd (campaign_step 1 ?fresh ?c25)) [])"
    using first by (elim conjE) assumption
  have a2: "previous_campaign_metrics ?fresh (campaign_id ?c25) = None \<longrightarrow>
            fst (campaign_step 1 ?fresh ?c25) = []"
    using first by (elim conjE) assumption
  have r1: "fst (check_campaign_performance_alerts 1 ?fresh [?c25]) = []"
    using a1 a2 unseen by simp
  have b1: "fst (check_campaign_performance_alerts 2 ?s25 ([] @ ?c15 # []))
            = fst (check_campaign_performance_alerts 2 ?s25 []) @ fst (campaign_step 2 ?s25 ?c15)
              @ fst (check_campaign_performance_alerts 2 (snd (campaign_step 2 ?s25 ?c15)) [])"
    using second by (elim conjE) assumption
  have b2: "previous_campaign_metrics ?s25 (campaign_id ?c15) = Some ?p25
              \<and> prev_avg_engagement_rate ?p25 = 5 / 2 \<and> avg_engagement_rate ?c15 = 3 / 2 \<longrightarrow>
            map severity (fst (campaign_step 2 ?s25 ?c15)) = [''critical'']"
    using second by (elim conjE) assumption
  have "map severity (fst (campaign_step 2 ?s25 ?c15)) = [''critical'']"
    using b2 seen25 by simp
  then have r2: "map severity (fst (check_campaign_performance_alerts 2 ?s25 [?c15])) = [''critical'']"
    using b1 by simp
  have c1: "fst (check_campaign_performance_alerts 2 ?s0 ([] @ ?c3 # []))
            = fst (check_campaign_performance_alerts 2 ?s0 []) @ fst (campaign_step 2 ?s0 ?c3)
              @ fst (check_campaign_performance_alerts 2 (snd (campaign_step 2 ?s0 ?c3)) [])"
    using third by (elim conjE) assumption
  have c2: "previous_campaign_metrics ?s0 (campaign_id ?c3) = Some ?p0
              \<and> prev_avg_engagement_rate ?p0 = 0 \<and> avg_engagement_rate ?c3 = 3 \<longrightarrow>
            map severity (fst (campaign_step 2 ?s0 ?c3)) = [''warning'']"
    using third by (elim conjE) assumption
  have "map severity (fst (campaign_step 2 ?s0 ?c3)) = [''warning'']"
    using c2 seen0 by simp
  then have r3: "map severity (fst (check_campaign_performance_alerts 2 ?s0 [?c3])) = [''warning'']"
    using c1 by simp
  show ?thesis using act(2) r1 r2 r3 by (intro conjI)
qed

subsection \<open>Rounding to binary64\<close>

lemma pow2_powi: "pow2 e = 2 powi e"
  by (simp add: pow2_def power_int_def field_simps)

lemma pow2_pos: "0 < pow2 e"
  by (simp add: pow2_powi)

lemma pow2_add: "pow2 (a + b) = pow2 a * pow2 b"
  by (simp add: pow2_powi power_int_add)

lemma pow2_strict_mono: "a < b \<Longrightarrow> pow2 a < pow2 b"
  by (simp add: pow2_powi power_int_strict_increasing)

lemma pow2_mono: "a \<le> b \<Longrightarrow> pow2 a \<le> pow2 b"
  by (simp add: pow2_powi power_int_increasing)

lemma pow2_less_iff: "pow2 a < pow2 b \<longleftrightarrow> a < b"
  using pow2_strict_mono [of a b] pow2_mono [of b a] by (cases "a < b") auto

lemma of_int_bitlen_bounds:
  assumes "0 < p"
  shows "pow2 (bitlen p - 1) \<le> of_int p" and "of_int p < pow2 (bitlen p)"
proof -
  from bitlen_bounds [OF assms]
  have lo: "2 ^ nat (bitlen p - 1) \<le> p" and hi: "p < 2 ^ nat (bitlen p)" by simp_all
  have b: "1 \<le> bitlen p" using assms by (simp add: bitlen_alt_def)
  have "(of_int (2 ^ nat (bitlen p - 1)) :: rat) \<le> of_int p"
    using lo by (simp only: of_int_le_iff)
  then show "pow2 (bitlen p - 1) \<le> of_int p"
    using b by (simp add: pow2_def)
  have "(of_int p :: rat) < of_int (2 ^ nat (bitlen p))"
    using hi by (simp only: of_int_less_iff)
  then show "of_int p < pow2 (bitlen p)"
    using b by (simp add: pow2_def)
qed

lemma ilog2_bounds:
  assumes "0 < x"
  shows "pow2 (ilog2 x) \<le> x" and "x < pow2 (ilog2 x + 1)"
proof -
  obtain p q where pq: "quotient_of x = (p, q)" by (cases "quotient_of x")
  have q: "0 < q" using pq by (rule quotient_of_denom_pos)
  have x: "x = of_int p / of_int q" using pq by (rule quotient_of_div)
  have p: "0 < p" using assms q x by (simp add: zero_less_divide_iff)
  define k where "k = bitlen p - bitlen q"
  note bp = of_int_bitlen_bounds [OF p] and bq = of_int_bitlen_bounds [OF q]
  have Q: "(0::rat) < of_int q" using q by simp
  have "x * of_int q < pow2 (bitlen p)" using bp(2) x Q by simp
  also have "\<dots> = pow2 (k + 1) * pow2 (bitlen q - 1)"
    by (simp add: k_def pow2_add [symmetric])
  also have "\<dots> \<le> pow2 (k + 1) * of_int q"
    using bq(1) pow2_pos [of "k + 1"] by simp
  finally have hi: "x < pow2 (k + 1)" using Q by simp
  have "pow2 (k - 1) * of_int q < pow2 (k - 1) * pow2 (bitlen q)"
    using bq(2) pow2_pos [of "k - 1"] by simp
  also have "\<dots> = pow2 (bitlen p - 1)"
    by (simp add: k_def pow2_add [symmetric])
  also have "\<dots> \<le> x * of_int q" using bp(1) x Q by simp
  finally have lo: "pow2 (k - 1) < x" using Q by simp
  have il: "ilog2 x = (if pow2 k \<le> x then k else k - 1)"
    by (simp add: ilog2_def pq k_def Let_def)
  show "pow2 (ilog2 x) \<le> x" using lo by (simp add: il)
  show "x < pow2 (ilog2 x + 1)" using hi by (simp add: il)
qed

lemma ilog2_unique:
  assumes "0 < x" and "pow2 k \<le> x" and "x < pow2 (k + 1)"
  shows "ilog2 x = k"
proof -
  have "pow2 (ilog2 x) < pow2 (k + 1)"
    using ilog2_bounds(1) [OF assms(1)] assms(3) by simp
  then have "ilog2 x < k + 1" by (simp only: pow2_less_iff)
  moreover have "pow2 k < pow2 (ilog2 x + 1)"
    using ilog2_bounds(2) [OF assms(1)] assms(2) by simp
  then have "k < ilog2 x + 1" by (simp only: pow2_less_iff)
  ultimately show ?thesis by simp
qed

lemma round_half_even_bounds:
  "of_int (round_half_even x) \<le> x + 1 / 2" "x - 1 / 2 \<le> of_int (round_half_even x)"
proof -
  define n where "n = \<lfloor>x\<rfloor>"
  have f: "of_int n \<le> x" "x < of_int n + 1" unfolding n_def by linarith+
  have r: "round_half_even x =
             (if x - of_int n < 1 / 2 then n
              else if 1 / 2 < x - of_int n then n + 1
              else if even n then n else n + 1)"
    by (simp add: round_half_even_def Let_def n_def)
  consider "x - of_int n < 1 / 2" | "1 / 2 < x - of_int n" | "x - of_int n = 1 / 2"
    by linarith
  then have "of_int (round_half_even x) \<le> x + 1 / 2 \<and> x - 1 / 2 \<le> of_int (round_half_even x)"
  proof cases
    case 1
    then have "round_half_even x = n" by (simp add: r)
    with 1 f show ?thesis by simp
  next
    case 2
    then have "round_half_even x = n + 1" by (simp add: r)
    with 2 f show ?thesis by simp
  next
    case 3
    then have "round_half_even x = n \<or> round_half_even x = n + 1" by (simp add: r)
    with 3 f show ?thesis by auto
  qed
  then show "of_int (round_half_even x) \<le> x + 1 / 2" "x - 1 / 2 \<le> of_int (round_half_even x)"
    by simp_all
qed

lemma round_half_even_ge:
  assumes "of_int a - 1 / 2 < x"
  shows "a \<le> round_half_even x"
proof -
  have "(of_int a :: rat) - 1 < of_int (round_half_even x)"
    using assms round_half_even_bounds(2) [of x] by simp
  then have "(of_int (a - 1) :: rat) < of_int (round_half_even x)" by simp
  then have "a - 1 < round_half_even x" by (simp only: of_int_less_iff)
  then show ?thesis by simp
qed

lemma round_half_even_le:
  assumes "x < of_int b + 1 / 2"
  shows "round_half_even x \<le> b"
proof -
  have "(of_int (round_half_even x) :: rat) < of_int b + 1"
    using assms round_half_even_bounds(1) [of x] by simp
  then have "(of_int (round_half_even x) :: rat) < of_int (b + 1)" by simp
  then have "round_half_even x < b + 1" by (simp only: of_int_less_iff)
  then show ?thesis by simp
qed

lemma fl_binade:
  assumes "0 < x" and "pow2 k \<le> x" and "x < pow2 (k + 1)"
  shows "fl x = of_int (round_half_even (x / pow2 (k - 52))) * pow2 (k - 52)"
  using assms(1) ilog2_unique [OF assms] by (simp add: fl_def Let_def)

lemma fl_ge_60:
  assumes "100 * (5404319552844595 / 9007199254740992) \<le> z" and "z \<le> 100"
  shows "60 \<le> fl z"
proof (cases "z < 64")
  case True
  have "fl z = of_int (round_half_even (z / pow2 (5 - 52))) * pow2 (5 - 52)"
    using assms True by (intro fl_binade) (simp_all add: pow2_def)
  then have f: "fl z = of_int (round_half_even (z * 2 ^ 47)) / 2 ^ 47"
    by (simp add: pow2_def)
  have "8444249301319680 \<le> round_half_even (z * 2 ^ 47)"
    using assms(1) by (intro round_half_even_ge) simp
  then have "(of_int 8444249301319680 :: rat) \<le> of_int (round_half_even (z * 2 ^ 47))"
    by (simp only: of_int_le_iff)
  then show ?thesis by (simp add: f field_simps)
next
  case False
  have "fl z = of_int (round_half_even (z / pow2 (6 - 52))) * pow2 (6 - 52)"
    using assms False by (intro fl_binade) (simp_all add: pow2_def)
  then have f: "fl z = of_int (round_half_even (z * 2 ^ 46)) / 2 ^ 46"
    by (simp add: pow2_def)
  have "z * 2 ^ 46 - 1 / 2 \<le> of_int (round_half_even (z * 2 ^ 46))"
    by (rule round_half_even_bounds)
  then show ?thesis using False by (simp add: f field_simps)
qed

lemma pow2_shift:
  "pow2 (k + 1) = pow2 53 * pow2 (k - 52)" "pow2 k = pow2 52 * pow2 (k - 52)"
proof -
  have "k + 1 = 53 + (k - 52)" "k = 52 + (k - 52)" by simp_all
  then show "pow2 (k + 1) = pow2 53 * pow2 (k - 52)" "pow2 k = pow2 52 * pow2 (k - 52)"
    by (metis pow2_add)+
qed

lemma pow2_values: "pow2 53 = 2 ^ 53" "pow2 52 = 2 ^ 52"
  by (simp_all add: pow2_def)

lemma fl_le_pow2:
  assumes "0 < x" and "x < pow2 j"
  shows "fl x \<le> pow2 j"
proof -
  define k where "k = ilog2 x"
  have lo: "pow2 k \<le> x" and hi: "x < pow2 (k + 1)"
    unfolding k_def using ilog2_bounds [OF assms(1)] by simp_all
  have "pow2 k < pow2 j" using lo assms(2) by simp
  then have kj: "k + 1 \<le> j" by (simp add: pow2_less_iff)
  have f: "fl x = of_int (round_half_even (x / pow2 (k - 52))) * pow2 (k - 52)"
    using assms(1) lo hi by (rule fl_binade)
  have "x / pow2 (k - 52) < pow2 (k + 1) / pow2 (k - 52)"
    using hi pow2_pos [of "k - 52"] by (simp add: divide_strict_right_mono)
  also have "pow2 (k + 1) = pow2 53 * pow2 (k - 52)"
    by (rule pow2_shift)
  finally have "x / pow2 (k - 52) < pow2 53"
    using pow2_pos [of "k - 52"] by simp
  then have "x / pow2 (k - 52) < 2 ^ 53" by (simp only: pow2_values)
  then have "x / pow2 (k - 52) < of_int (2 ^ 53) + 1 / 2"
  proof -
    assume a: "x / pow2 (k - 52) < 2 ^ 53"
    define m where "m = x / pow2 (k - 52)"
    have "m < 2 ^ 53" using a by (simp only: m_def)
    then have "m < of_int (2 ^ 53) + 1 / 2" by simp
    then show ?thesis by (simp only: m_def)
  qed
  then have "round_half_even (x / pow2 (k - 52)) \<le> 2 ^ 53"
    by (rule round_half_even_le)
  then have "(of_int (round_half_even (x / pow2 (k - 52))) :: rat) \<le> of_int (2 ^ 53)"
    by (simp only: of_int_le_iff)
  then have "fl x \<le> of_int (2 ^ 53) * pow2 (k - 52)"
    unfolding f using pow2_pos [of "k - 52"] by (simp only: mult_le_cancel_right_pos)
  also have "\<dots> = pow2 53 * pow2 (k - 52)" by (simp add: pow2_values)
  also have "\<dots> = pow2 (k + 1)" by (simp only: pow2_shift(1))
  also have "\<dots> \<le> pow2 j" using kj by (rule pow2_mono)
  finally show ?thesis .
qed

lemma fl_pos:
  assumes "0 < x"
  shows "0 < fl x"
proof -
  define k where "k = ilog2 x"
  have lo: "pow2 k \<le> x" and hi: "x < pow2 (k + 1)"
    unfolding k_def using ilog2_bounds [OF assms(1)] by simp_all
  have f: "fl x = of_int (round_half_even (x / pow2 (k - 52))) * pow2 (k - 52)"
    using assms(1) lo hi by (rule fl_binade)
  have "pow2 k = pow2 52 * pow2 (k - 52)" by (rule pow2_shift)
  then have "pow2 52 \<le> x / pow2 (k - 52)"
    using lo pow2_pos [of "k - 52"] by (simp add: pos_le_divide_eq)
  moreover have "(1::rat) \<le> pow2 52" by (simp add: pow2_values)
  ultimately have "1 \<le> x / pow2 (k - 52)" by linarith
  then have "of_int 1 - 1 / 2 < x / pow2 (k - 52)"
  proof -
    assume a: "1 \<le> x / pow2 (k - 52)"
    define m where "m = x / pow2 (k - 52)"
    have "1 \<le> m" using a by (simp only: m_def)
    then have "of_int 1 - 1 / 2 < m" by simp
    then show ?thesis by (simp only: m_def)
  qed
  then have "1 \<le> round_half_even (x / pow2 (k - 52))"
    by (rule round_half_even_ge)
  then have "(0::rat) < of_int (round_half_even (x / pow2 (k - 52)))" by simp
  then show ?thesis unfolding f using pow2_pos [of "k - 52"] by simp
qed

lemma fl_less_60:
  assumes "0 < z" and "z \<le> 100 * (5404319552844594 / 9007199254740992)"
  shows "fl z < 60"
proof (cases "z < 32")
  case True
  then have "z < pow2 5" by (simp add: pow2_def)
  with assms(1) have "fl z \<le> pow2 5" by (rule fl_le_pow2)
  then show ?thesis by (simp add: pow2_def)
next
  case False
  have "fl z = of_int (round_half_even (z / pow2 (5 - 52))) * pow2 (5 - 52)"
    using assms False by (intro fl_binade) (simp_all add: pow2_def)
  then have f: "fl z = of_int (round_half_even (z * 2 ^ 47)) / 2 ^ 47"
    by (simp add: pow2_def)
  have "round_half_even (z * 2 ^ 47) \<le> 8444249301319679"
    using assms(2) by (intro round_half_even_le) simp
  then have "(of_int (round_half_even (z * 2 ^ 47)) :: rat) \<le> of_int 8444249301319679"
    by (simp only: of_int_le_iff)
  then show ?thesis by (simp add: f field_simps)
qed

lemma NEGATIVE_SENTIMENT_THRESHOLD_value:
  "NEGATIVE_SENTIMENT_THRESHOLD = 5404319552844595 / 9007199254740992"
  by code_simp

lemma scaled_threshold_value: "fmul NEGATIVE_SENTIMENT_THRESHOLD 100 = 60"
  by code_simp

lemma scaled_comparison:
  assumes "0 < y" and "y \<le> 1"
  shows "fmul NEGATIVE_SENTIMENT_THRESHOLD 100 \<le> fmul (fl y) 100
         \<longleftrightarrow> NEGATIVE_SENTIMENT_THRESHOLD \<le> fl y"
proof -
  consider "y = 1" | "1 / 2 \<le> y" "y < 1" | "y < 1 / 2" using assms(2) by linarith
  then have main: "60 \<le> fl (fl y * 100) \<longleftrightarrow> 5404319552844595 / 9007199254740992 \<le> fl y"
  proof cases
    case 1
    have "fl 1 = 1" "fl 100 = 100" by code_simp+
    with 1 show ?thesis by simp
  next
    case 2
    have "fl y = of_int (round_half_even (y / pow2 (- 1 - 52))) * pow2 (- 1 - 52)"
      using assms(1) 2 by (intro fl_binade) (simp_all add: pow2_def)
    then have f: "fl y = of_int (round_half_even (y * 2 ^ 53)) / 2 ^ 53"
      by (simp add: pow2_def)
    define K where "K = round_half_even (y * 2 ^ 53)"
    have f': "fl y = of_int K / 9007199254740992" using f by (simp add: K_def)
    have "K \<le> 2 ^ 53" unfolding K_def using 2(2) by (intro round_half_even_le) simp
    then have "(of_int K :: rat) \<le> of_int (2 ^ 53)" by (simp only: of_int_le_iff)
    then have up: "(of_int K :: rat) \<le> 9007199254740992" by simp
    have "1 \<le> K" unfolding K_def using 2(1) by (intro round_half_even_ge) simp
    then have "(of_int 1 :: rat) \<le> of_int K" by (simp only: of_int_le_iff)
    then have pos: "(0 :: rat) < of_int K" by simp
    show ?thesis
    proof (cases "5404319552844595 \<le> K")
      case True
      then have "(of_int 5404319552844595 :: rat) \<le> of_int K" by (simp only: of_int_le_iff)
      then have ge: "(5404319552844595 :: rat) \<le> of_int K" by simp
      then have "60 \<le> fl (fl y * 100)"
        using up by (intro fl_ge_60) (simp_all add: f')
      moreover have "5404319552844595 / 9007199254740992 \<le> fl y"
        using ge by (simp add: f')
      ultimately show ?thesis by simp
    next
      case False
      then have "K \<le> 5404319552844594" by simp
      then have "(of_int K :: rat) \<le> of_int 5404319552844594" by (simp only: of_int_le_iff)
      then have le: "(of_int K :: rat) \<le> 5404319552844594" by simp
      then have "fl (fl y * 100) < 60"
        using pos by (intro fl_less_60) (simp_all add: f')
      moreover have "fl y < 5404319552844595 / 9007199254740992"
        using le by (simp add: f')
      ultimately show ?thesis by simp
    qed
  next
    case 3
    then have "y < pow2 (- 1)" by (simp add: pow2_def)
    with assms(1) have "fl y \<le> pow2 (- 1)" by (rule fl_le_pow2)
    then have half: "fl y \<le> 1 / 2" by (simp add: pow2_def)
    have "fl (fl y * 100) < 60"
      using fl_pos [OF assms(1)] half by (intro fl_less_60) simp_all
    with half show ?thesis by simp
  qed
  have e1: "fmul NEGATIVE_SENTIMENT_THRESHOLD 100 \<le> fmul (fl y) 100
            \<longleftrightarrow> 60 \<le> fl (fl y * 100)"
    by (subst scaled_threshold_value) (simp only: fmul_def)
  have e2: "NEGATIVE_SENTIMENT_THRESHOLD \<le> fl y
            \<longleftrightarrow> 5404319552844595 / 9007199254740992 \<le> fl y"
    by (simp only: NEGATIVE_SENTIMENT_THRESHOLD_value)
  show ?thesis by (simp only: e1 e2 main)
qed

lemma sentiment_test:
  assumes "n \<le> L" and "0 < L"
  shows "0 < n \<and> fmul NEGATIVE_SENTIMENT_THRESHOLD 100 \<le> fmul (truediv (int n) (int L)) 100
         \<longleftrightarrow> NEGATIVE_SENTIMENT_THRESHOLD \<le> truediv (int n) (int L)"
proof (cases "n = 0")
  case True
  then show ?thesis
    by (simp add: truediv_def fl_def NEGATIVE_SENTIMENT_THRESHOLD_value)
next
  case False
  have "0 < (of_int (int n) / of_int (int L) :: rat)" using False assms(2) by simp
  moreover have "(of_int (int n) / of_int (int L) :: rat) \<le> 1" using assms by simp
  ultimately show ?thesis
    using False scaled_comparison [of "of_int (int n) / of_int (int L)"]
    by (simp add: truediv_def)
qed

subsection \<open>Sentiment detector\<close>

lemma negative_post_count_le:
  "negative_post_count analyze_sentiment posts \<le> length posts"
  by (simp add: negative_post_count_def)

lemma check_sentiment_alerts_small:
  "length posts < NEGATIVE_SENTIMENT_POST_COUNT \<Longrightarrow> check_sentiment_alerts now svc c posts = []"
  by (simp add: check_sentiment_alerts_def split: option.split)

lemma check_sentiment_alerts_no_analyzer:
  "ai_analyzer svc = None \<Longrightarrow> check_sentiment_alerts now svc c posts = []"
  by (simp add: check_sentiment_alerts_def)

lemma check_sentiment_alerts_enough:
  assumes "ai_analyzer svc = Some analyze_sentiment"
    and "NEGATIVE_SENTIMENT_POST_COUNT \<le> length posts"
  shows "check_sentiment_alerts now svc c posts =
     (if NEGATIVE_SENTIMENT_THRESHOLD
           \<le> truediv (int (negative_post_count analyze_sentiment posts)) (int (length posts))
      then [Alert now (service_user_id svc)
              (NegativeSentimentMessage
                 (fmul (truediv (int (negative_post_count analyze_sentiment posts))
                          (int (length posts))) 100)
                 (name c) (negative_post_count analyze_sentiment posts) (length posts))
              ''negative_sentiment_surge'' ''critical'' (Some (campaign_id c)) (Some ''campaign'')]
      else [])"
proof -
  have pos: "0 < length posts" and ne: "posts \<noteq> []"
    using assms(2) by (auto simp: NEGATIVE_SENTIMENT_POST_COUNT_def)
  note t = sentiment_test [OF negative_post_count_le pos, of analyze_sentiment]
  show ?thesis
  proof (cases "NEGATIVE_SENTIMENT_THRESHOLD
           \<le> truediv (int (negative_post_count analyze_sentiment posts)) (int (length posts))")
    case True
    with t have "0 < negative_post_count analyze_sentiment posts"
      and "fmul NEGATIVE_SENTIMENT_THRESHOLD 100
           \<le> fmul (truediv (int (negative_post_count analyze_sentiment posts))
                      (int (length posts))) 100"
      by blast+
    with True assms ne show ?thesis
      by (simp add: check_sentiment_alerts_def Let_def)
  next
    case False
    with t have "\<not> (0 < negative_post_count analyze_sentiment posts
      \<and> fmul NEGATIVE_SENTIMENT_THRESHOLD 100
           \<le> fmul (truediv (int (negative_post_count analyze_sentiment posts))
                      (int (length posts))) 100)"
      by blast
    with False assms ne show ?thesis
      by (auto simp: check_sentiment_alerts_def Let_def)
  qed
qed

lemma truediv_examples:
  "NEGATIVE_SENTIMENT_THRESHOLD \<le> truediv 8 12" "truediv 5 12 < NEGATIVE_SENTIMENT_THRESHOLD"
  "truediv 7 12 < NEGATIVE_SENTIMENT_THRESHOLD" "NEGATIVE_SENTIMENT_THRESHOLD \<le> truediv 12 12"
  by code_simp+

lemma counts_negative_iff:
  "counts_negative analyze_sentiment p \<longleftrightarrow>
     \<not> falsy (content p) \<and> spec_resolved_label analyze_sentiment p = Some ''negative''"
proof (cases "content p")
  case None
  then show ?thesis by (simp add: counts_negative_def falsy_def)
next
  case (Some body)
  then show ?thesis
    by (cases "body = []")
      (auto simp: counts_negative_def resolve_label_def spec_resolved_label_def falsy_def Let_def)
qed

lemma negative_post_count_counts:
  "negative_post_count analyze_sentiment posts =
     length (filter (\<lambda>p. \<not> falsy (content p)
                          \<and> spec_resolved_label analyze_sentiment p = Some ''negative'') posts)"
proof -
  have "counts_negative analyze_sentiment
        = (\<lambda>p. \<not> falsy (content p) \<and> spec_resolved_label analyze_sentiment p = Some ''negative'')"
    by (rule ext) (rule counts_negative_iff)
  then show ?thesis by (simp only: negative_post_count_def)
qed

lemma negative_post_count_all_text:
  assumes "\<forall>p \<in> set posts. \<not> falsy (content p)"
  shows "negative_post_count analyze_sentiment posts = spec_negative_count analyze_sentiment posts"
proof -
  have "filter (\<lambda>p. \<not> falsy (content p)
                      \<and> spec_resolved_label analyze_sentiment p = Some ''negative'') posts
        = filter (\<lambda>p. spec_resolved_label analyze_sentiment p = Some ''negative'') posts"
    using assms by (intro filter_cong) auto
  then show ?thesis by (simp add: negative_post_count_counts spec_negative_count_def)
qed

lemma negative_post_count_no_text:
  assumes "\<forall>p \<in> set posts. falsy (content p)"
  shows "negative_post_count analyze_sentiment posts = 0"
  using assms by (simp add: negative_post_count_counts)

lemma check_sentiment_alerts_none_counted:
  "negative_post_count analyze_sentiment posts = 0 \<Longrightarrow> ai_analyzer svc = Some analyze_sentiment \<Longrightarrow>
   check_sentiment_alerts now svc c posts = []"
  by (simp add: check_sentiment_alerts_def Let_def)

lemma counts_negative_samples:
  "counts_negative analyze_sentiment (sample_post\<lparr>sentiment_label := Some ''negative''\<rparr>)"
  "\<not> counts_negative analyze_sentiment (sample_post\<lparr>sentiment_label := Some ''positive''\<rparr>)"
  "\<not> counts_negative analyze_sentiment
       (sample_post\<lparr>content := None, sentiment_label := Some ''negative''\<rparr>)"
  by (simp_all add: counts_negative_def resolve_label_def pre_attached_label_def falsy_def
      sample_post_def)

lemma negative_post_count_replicate:
  "counts_negative analyze_sentiment x \<Longrightarrow> \<not> counts_negative analyze_sentiment y \<Longrightarrow>
   negative_post_count analyze_sentiment (replicate k x @ replicate m y) = k"
  by (simp add: negative_post_count_def)

lemma spec_negative_count_no_text_sample:
  "spec_negative_count classify
     (replicate k (sample_post\<lparr>content := None, sentiment_label := Some ''negative''\<rparr>)) = k"
  by (simp add: spec_negative_count_def spec_resolved_label_def pre_attached_label_def falsy_def
      sample_post_def)

text \<open>
  Claim C6, as stated, fails twice. A service whose classifier is unavailable returns
  no alert for 12 posts of which 8 carry the label \<^verbatim>\<open>negative\<close>. And with the classifier
  present, 12 posts without text that all carry the pre-attached label \<^verbatim>\<open>negative\<close>
  give no alert: the tally looks at a label only under \<^verbatim>\<open>if post.content:\<close>.
\<close>

theorem no_classifier_or_no_text_no_alert:
  "length (replicate 8 (sample_post\<lparr>sentiment_label := Some ''negative''\<rparr>)
           @ replicate 4 (sample_post\<lparr>sentiment_label := Some ''positive''\<rparr>)) = 12
   \<and> negative_post_count (\<lambda>text. Some ''neutral'')
        (replicate 8 (sample_post\<lparr>sentiment_label := Some ''negative''\<rparr>)
         @ replicate 4 (sample_post\<lparr>sentiment_label := Some ''positive''\<rparr>)) = 8
   \<and> NEGATIVE_SENTIMENT_THRESHOLD \<le> truediv 8 12
   \<and> check_sentiment_alerts 150 (AlertingService ''u'' None) (sample_campaign\<lparr>status := Active\<rparr>)
        (replicate 8 (sample_post\<lparr>sentiment_label := Some ''negative''\<rparr>)
         @ replicate 4 (sample_post\<lparr>sentiment_label := Some ''positive''\<rparr>)) = []
   \<and> length (replicate 12 (sample_post\<lparr>content := None, sentiment_label := Some ''negative''\<rparr>))
       = 12
   \<and> spec_negative_count (\<lambda>text. Some ''neutral'')
        (replicate 12 (sample_post\<lparr>content := None, sentiment_label := Some ''negative''\<rparr>)) = 12
   \<and> NEGATIVE_SENTIMENT_THRESHOLD \<le> truediv 12 12
   \<and> check_sentiment_alerts 150 (AlertingService ''u'' (Some (\<lambda>text. Some ''neutral'')))
        (sample_campaign\<lparr>status := Active\<rparr>)
        (replicate 12 (sample_post\<lparr>content := None, sentiment_label := Some ''negative''\<rparr>)) = []"
proof -
  let ?a = "\<lambda>text :: string. Some ''neutral''"
  let ?quiet = "replicate 12 (sample_post\<lparr>content := None, sentiment_label := Some ''negative''\<rparr>)"
  have "negative_post_count ?a ?quiet = 0"
    by (intro negative_post_count_no_text) (simp add: falsy_def)
  then have "check_sentiment_alerts 150 (AlertingService ''u'' (Some ?a))
               (sample_campaign\<lparr>status := Active\<rparr>) ?quiet = []"
    by (rule check_sentiment_alerts_none_counted) (simp add: AlertingService_def)
  then show ?thesis
    by (simp add: negative_post_count_replicate counts_negative_samples truediv_examples
        check_sentiment_alerts_no_analyzer AlertingService_def spec_negative_count_no_text_sample)
qed

text \<open>
  Claim C6, amended: when the classifier is available, a call with fewer than
  \<open>MIN_SAMPLE = 10\<close> items returns no alert, and a call with at least that many returns
  exactly one \<^verbatim>\<open>critical\<close> alert when \<^verbatim>\<open>negativeCount / len(items) >= 0.6\<close> (as floats)
  and no alert otherwise; 12 items with 5 negative give no alert and 12 items with 8
  negative give one critical alert. Here \<open>negativeCount\<close> is the number of items that
  have a non-empty text and whose label, pre-attached or else given by the classifier,
  is \<^verbatim>\<open>negative\<close>: it is the tally of the specification when every item has text, and an
  item without text is never counted, whatever label it carries. When the classifier
  is unavailable the detector returns no alert.
\<close>

theorem sentiment_detector_alerts:
  assumes "ai_analyzer svc = Some analyze_sentiment"
    and "n = negative_post_count analyze_sentiment posts"
    and "L = length posts"
  shows "(L < NEGATIVE_SENTIMENT_POST_COUNT \<longrightarrow> check_sentiment_alerts now svc c posts = [])
     \<and> (NEGATIVE_SENTIMENT_POST_COUNT \<le> L
          \<and> NEGATIVE_SENTIMENT_THRESHOLD \<le> truediv (int n) (int L) \<longrightarrow>
        check_sentiment_alerts now svc c posts
        = [Alert now (service_user_id svc)
             (NegativeSentimentMessage (fmul (truediv (int n) (int L)) 100) (name c) n L)
             ''negative_sentiment_surge'' ''critical'' (Some (campaign_id c)) (Some ''campaign'')])
     \<and> (NEGATIVE_SENTIMENT_POST_COUNT \<le> L
          \<and> truediv (int n) (int L) < NEGATIVE_SENTIMENT_THRESHOLD \<longrightarrow>
        check_sentiment_alerts now svc c posts = [])
     \<and> (L = 12 \<and> n = 5 \<longrightarrow> check_sentiment_alerts now svc c posts = [])
     \<and> (L = 12 \<and> n = 8 \<longrightarrow> map severity (check_sentiment_alerts now svc c posts) = [''critical''])
     \<and> (ai_analyzer svc' = None \<longrightarrow> check_sentiment_alerts now svc' c posts = [])
     \<and> NEGATIVE_SENTIMENT_POST_COUNT = 10
     \<and> NEGATIVE_SENTIMENT_THRESHOLD = fl (6 / 10)
     \<and> n = length (filter (\<lambda>p. \<not> falsy (content p)
                                 \<and> spec_resolved_label analyze_sentiment p = Some ''negative'')
                      posts)
     \<and> ((\<forall>p \<in> set posts. \<not> falsy (content p)) \<longrightarrow>
          n = spec_negative_count analyze_sentiment posts)
     \<and> ((\<forall>p \<in> set posts. falsy (content p)) \<longrightarrow>
          n = 0 \<and> check_sentiment_alerts now svc c posts = [])"
proof -
  have small: "L < NEGATIVE_SENTIMENT_POST_COUNT \<longrightarrow> check_sentiment_alerts now svc c posts = []"
    using assms(3) by (simp add: check_sentiment_alerts_small)
  have hit: "NEGATIVE_SENTIMENT_POST_COUNT \<le> L
          \<and> NEGATIVE_SENTIMENT_THRESHOLD \<le> truediv (int n) (int L) \<longrightarrow>
        check_sentiment_alerts now svc c posts
        = [Alert now (service_user_id svc)
             (NegativeSentimentMessage (fmul (truediv (int n) (int L)) 100) (name c) n L)
             ''negative_sentiment_surge'' ''critical'' (Some (campaign_id c)) (Some ''campaign'')]"
    using assms by (simp add: check_sentiment_alerts_enough)
  have miss: "NEGATIVE_SENTIMENT_POST_COUNT \<le> L
          \<and> truediv (int n) (int L) < NEGATIVE_SENTIMENT_THRESHOLD \<longrightarrow>
        check_sentiment_alerts now svc c posts = []"
    using assms by (simp add: check_sentiment_alerts_enough)
  have five: "L = 12 \<and> n = 5 \<longrightarrow> check_sentiment_alerts now svc c posts = []"
    using miss truediv_examples(2) by (simp add: NEGATIVE_SENTIMENT_POST_COUNT_def)
  have eight: "L = 12 \<and> n = 8 \<longrightarrow>
        map severity (check_sentiment_alerts now svc c posts) = [''critical'']"
    using hit truediv_examples(1) by (simp add: NEGATIVE_SENTIMENT_POST_COUNT_def severity_Alert)
  have none: "ai_analyzer svc' = None \<longrightarrow> check_sentiment_alerts now svc' c posts = []"
    by (simp add: check_sentiment_alerts_no_analyzer)
  have vals: "NEGATIVE_SENTIMENT_POST_COUNT = 10" "NEGATIVE_SENTIMENT_THRESHOLD = fl (6 / 10)"
    by (simp_all add: NEGATIVE_SENTIMENT_POST_COUNT_def NEGATIVE_SENTIMENT_THRESHOLD_def)
  have counted: "n = length (filter (\<lambda>p. \<not> falsy (content p)
                                 \<and> spec_resolved_label analyze_sentiment p = Some ''negative'')
                      posts)"
    using assms(2) by (simp only: negative_post_count_counts)
  have agree: "(\<forall>p \<in> set posts. \<not> falsy (content p)) \<longrightarrow>
          n = spec_negative_count analyze_sentiment posts"
    using assms(2) by (simp add: negative_post_count_all_text)
  have textless: "(\<forall>p \<in> set posts. falsy (content p)) \<longrightarrow>
          n = 0 \<and> check_sentiment_alerts now svc c posts = []"
    using assms(1,2) negative_post_count_no_text [of posts analyze_sentiment]
      check_sentiment_alerts_none_counted [of analyze_sentiment posts svc now c]
    by simp
  show ?thesis
    using small hit miss five eight none vals counted agree textless by (intro conjI)
qed

theorem sentiment_detector_alerts_witness:
  "ai_analyzer (AlertingService ''u'' (Some (\<lambda>text. Some ''neutral''))) = Some (\<lambda>text. Some ''neutral'')
   \<and> check_sentiment_alerts 150 (AlertingService ''u'' (Some (\<lambda>text. Some ''neutral'')))
        (sample_campaign\<lparr>status := Active\<rparr>)
        (replicate 5 (sample_post\<lparr>sentiment_label := Some ''negative''\<rparr>)
         @ replicate 7 (sample_post\<lparr>sentiment_label := Some ''positive''\<rparr>)) = []
   \<and> map severity
       (check_sentiment_alerts 150 (AlertingService ''u'' (Some (\<lambda>text. Some ''neutral'')))
          (sample_campaign\<lparr>status := Active\<rparr>)
          (replicate 8 (sample_post\<lparr>sentiment_label := Some ''negative''\<rparr>)
           @ replicate 4 (sample_post\<lparr>sentiment_label := Some ''positive''\<rparr>))) = [''critical'']
   \<and> check_sentiment_alerts 150 (AlertingService ''u'' (Some (\<lambda>text. Some ''neutral'')))
        (sample_campaign\<lparr>status := Active\<rparr>)
        (replicate 9 (sample_post\<lparr>sentiment_label := Some ''negative''\<rparr>)) = []
   \<and> check_sentiment_alerts 150 (AlertingService ''u'' None) (sample_campaign\<lparr>status := Active\<rparr>)
        (replicate 8 (sample_post\<lparr>sentiment_label := Some ''negative''\<rparr>)
         @ replicate 4 (sample_post\<lparr>sentiment_label := Some ''positive''\<rparr>)) = []
   \<and> negative_post_count (\<lambda>text. Some ''neutral'')
        (replicate 7 (sample_post\<lparr>sentiment_label := Some ''negative''\<rparr>)
         @ replicate 5 (sample_post\<lparr>content := None, sentiment_label := Some ''negative''\<rparr>)) = 7
   \<and> check_sentiment_alerts 150 (AlertingService ''u'' (Some (\<lambda>text. Some ''neutral'')))
        (sample_campaign\<lparr>status := Active\<rparr>)
        (replicate 7 (sample_post\<lparr>sentiment_label := Some ''negative''\<rparr>)
         @ replicate 5 (sample_post\<lparr>content := None, sentiment_label := Some ''negative''\<rparr>)) = []
   \<and> check_sentiment_alerts 150 (AlertingService ''u'' (Some (\<lambda>text. Some ''neutral'')))
        (sample_campaign\<lparr>status := Active\<rparr>)
        (replicate 12 (sample_post\<lparr>content := None, sentiment_label := Some ''negative''\<rparr>)) = []"
proof -
  let ?a = "\<lambda>text :: string. Some ''neutral''"
  let ?svc = "AlertingService ''u'' (Some ?a)"
  let ?none = "AlertingService ''u'' None"
  let ?c = "sample_campaign\<lparr>status := Active\<rparr>"
  let ?neg = "sample_post\<lparr>sentiment_label := Some ''negative''\<rparr>"
  let ?pos = "sample_post\<lparr>sentiment_label := Some ''positive''\<rparr>"
  let ?bare = "sample_post\<lparr>content := None, sentiment_label := Some ''negative''\<rparr>"
  have an: "ai_analyzer ?svc = Some ?a" "ai_analyzer ?none = None"
    by (simp_all add: AlertingService_def)
  have n5: "5 = negative_post_count ?a (replicate 5 ?neg @ replicate 7 ?pos)"
    and n8: "8 = negative_post_count ?a (replicate 8 ?neg @ replicate 4 ?pos)"
    and n9: "9 = negative_post_count ?a (replicate 9 ?neg @ replicate 0 ?pos)"
    and n7: "7 = negative_post_count ?a (replicate 7 ?neg @ replicate 5 ?bare)"
    by (simp_all only: negative_post_count_replicate counts_negative_samples simp_thms)
  have n0: "negative_post_count ?a (replicate 12 ?bare) = negative_post_count ?a (replicate 12 ?bare)"
    by (rule refl)
  have l5: "12 = length (replicate 5 ?neg @ replicate 7 ?pos)"
    and l8: "12 = length (replicate 8 ?neg @ replicate 4 ?pos)"
    and l9: "9 = length (replicate 9 ?neg @ replicate 0 ?pos)"
    and l7: "12 = length (replicate 7 ?neg @ replicate 5 ?bare)"
    and l0: "12 = length (replicate 12 ?bare)"
    by simp_all
  note i5 = sentiment_detector_alerts [OF an(1) n5 l5, where now = 150 and c = ?c and svc' = ?none]
  note i8 = sentiment_detector_alerts [OF an(1) n8 l8, where now = 150 and c = ?c and svc' = ?none]
  note i9 = sentiment_detector_alerts [OF an(1) n9 l9, where now = 150 and c = ?c and svc' = ?none]
  note i7 = sentiment_detector_alerts [OF an(1) n7 l7, where now = 150 and c = ?c and svc' = ?none]
  note i0 = sentiment_detector_alerts [OF an(1) n0 l0, where now = 150 and c = ?c and svc' = ?none]
  have r5: "check_sentiment_alerts 150 ?svc ?c (replicate 5 ?neg @ replicate 7 ?pos) = []"
    using i5 by blast
  have r8: "map severity (check_sentiment_alerts 150 ?svc ?c (replicate 8 ?neg @ replicate 4 ?pos))
            = [''critical'']"
    using i8 by blast
  have "(9::nat) < NEGATIVE_SENTIMENT_POST_COUNT" by (simp add: NEGATIVE_SENTIMENT_POST_COUNT_def)
  with i9 have "check_sentiment_alerts 150 ?svc ?c (replicate 9 ?neg @ replicate 0 ?pos) = []"
    by blast
  then have r9: "check_sentiment_alerts 150 ?svc ?c (replicate 9 ?neg) = []" by simp
  have r0: "check_sentiment_alerts 150 ?none ?c (replicate 8 ?neg @ replicate 4 ?pos) = []"
    using i8 an(2) by blast
  have "NEGATIVE_SENTIMENT_POST_COUNT \<le> (12::nat)" "truediv (int 7) (int 12) < NEGATIVE_SENTIMENT_THRESHOLD"
    using truediv_examples(3) by (simp_all add: NEGATIVE_SENTIMENT_POST_COUNT_def)
  with i7 have r7: "check_sentiment_alerts 150 ?svc ?c (replicate 7 ?neg @ replicate 5 ?bare) = []"
    by blast
  have "\<forall>p \<in> set (replicate 12 ?bare). falsy (content p)" by (simp add: falsy_def)
  with i0 have rb: "check_sentiment_alerts 150 ?svc ?c (replicate 12 ?bare) = []"
    by blast
  show ?thesis using an(1) r5 r8 r9 r0 n7 [symmetric] r7 rb by (intro conjI)
qed

end
